theory Spec2Isabelle
  imports Main "HOL-Library.Sublist"
begin

section \<open>Data model\<close>

text \<open>
  The wallet ledger of \<^verbatim>\<open>WalletsService\<close> (wallets.service.ts), the ledger writer
  \<^verbatim>\<open>TransactionsService.create\<close>, the audit recorder \<^verbatim>\<open>AuditService.log\<close> and the
  Prisma client they run on, as pure functions over an explicit database state.

  Money is a \<^verbatim>\<open>Decimal\<close> held in \<^verbatim>\<open>DECIMAL(19,4)\<close> columns. It is modelled as an
  \<open>int\<close> counting units of 0.0001, so every value has at most four fractional digits;
  \<^verbatim>\<open>NaN\<close>, infinities and the 19-digit column bound are outside the model. The
  \<^verbatim>\<open>version\<close> column is a \<open>nat\<close> (the 32-bit bound of \<^verbatim>\<open>INTEGER\<close> is not modelled).
  The columns \<^verbatim>\<open>createdAt\<close> and \<^verbatim>\<open>updatedAt\<close>, the generated transaction ids and the
  \<^verbatim>\<open>users\<close> table are left out, and so are the calls to the process logger.
\<close>

type_synonym decimal = int

datatype TransactionType = CREDIT | DEBIT

datatype AuditAction = CREATE | UPDATE | DELETE | LOGIN | LOGOUT | LOGIN_FAILED

text \<open>
  Exceptions are values: the NestJS exception classes with their message, the Prisma
  request error with its code (\<^verbatim>\<open>P2002\<close> unique constraint, \<^verbatim>\<open>P2003\<close> foreign key,
  \<^verbatim>\<open>P2025\<close> record not found, \<^verbatim>\<open>P2000\<close> value too long), and any other \<^verbatim>\<open>Error\<close>.
\<close>

datatype exn =
    NotFoundException string
  | BadRequestException string
  | ConflictException string
  | PrismaClientKnownRequestError string
  | Error string

record Wallet =
  wallet_id :: string
  name :: string
  currency :: string
  balance :: decimal
  version :: nat
  userId :: string
  deletedAt :: "nat option"

record Transaction =
  walletId :: string
  txn_type :: TransactionType
  amount :: decimal
  balanceBefore :: decimal
  balanceAfter :: decimal
  reference :: string
  description :: "string option"
  metadata :: "(string \<times> string) list option"
  performedByUserId :: string

record AuditLog =
  actorUserId :: "string option"
  entity :: string
  entityId :: string
  action :: AuditAction
  changes :: "(string \<times> string) list option"
  ip :: "string option"
  userAgent :: "string option"

record DB =
  wallets :: "Wallet list"
  transactions :: "Transaction list"
  auditLogs :: "AuditLog list"

text \<open>
  \<^verbatim>\<open>FundWalletDto\<close> and \<^verbatim>\<open>WithdrawWalletDto\<close> declare the same four fields with the
  same validators.
\<close>

record FundWalletDto =
  dto_amount :: decimal
  dto_reference :: "string option"
  dto_description :: "string option"
  dto_metadata :: "(string \<times> string) list option"

type_synonym WithdrawWalletDto = FundWalletDto

record CreateWalletDto =
  dto_name :: string
  dto_currency :: string

text \<open>
  What one call takes from the world around it: what other committed writers do to the
  store between this unit's read and its conditional write (\<open>concurrent\<close>), the two
  parts of a generated reference (\<^verbatim>\<open>Date.now().toString(36).toUpperCase()\<close> and
  \<^verbatim>\<open>randomBytes(4).toString('hex').toUpperCase()\<close>), the clock (\<^verbatim>\<open>new Date()\<close>), the
  primary key the store generates for a new row, and whether the audit store rejects the
  insert (\<open>Some e\<close>: \<^verbatim>\<open>prisma.auditLog.create\<close> throws \<open>e\<close>).
\<close>

record Env =
  concurrent :: "DB \<Rightarrow> DB"
  timestamp :: string
  random :: string
  now :: nat
  uuid :: string
  audit_failure :: "exn option"

section \<open>Strings and decimals\<close>

text \<open>\<^verbatim>\<open>String.prototype.includes\<close>.\<close>

fun str_includes :: "string \<Rightarrow> string \<Rightarrow> bool" where
  "str_includes [] sub = (sub = [])"
| "str_includes (c # cs) sub = (prefix sub (c # cs) \<or> str_includes cs sub)"

definition digit :: "nat \<Rightarrow> char" where
  "digit n = (''0123456789'' ! n)"

function show_nat :: "nat \<Rightarrow> string" where
  "show_nat n = (if n < 10 then [digit n] else show_nat (n div 10) @ [digit (n mod 10)])"
  by pat_completeness auto
termination
  by (relation "measure id") auto

declare show_nat.simps [simp del]

fun strip_zeros :: "string \<Rightarrow> string" where
  "strip_zeros [] = []"
| "strip_zeros (c # cs) =
     (let r = strip_zeros cs in if r = [] \<and> c = CHR ''0'' then [] else c # r)"

text \<open>
  \<^verbatim>\<open>Decimal.prototype.toString\<close> on a value with four fractional digits below the
  exponential-notation thresholds: sign, integer part, and the fraction without its
  trailing zeros.
\<close>

definition fraction :: "nat \<Rightarrow> string" where
  "fraction f = strip_zeros [digit (f div 1000), digit (f div 100 mod 10),
                            digit (f div 10 mod 10), digit (f mod 10)]"

definition toString :: "decimal \<Rightarrow> string" where
  "toString d =
     (if d < 0 then ''-'' else []) @ show_nat (nat \<bar>d\<bar> div 10000) @
     (if fraction (nat \<bar>d\<bar> mod 10000) = [] then []
      else ''.'' @ fraction (nat \<bar>d\<bar> mod 10000))"

text \<open>
  \<^verbatim>\<open>generateTransactionReference\<close> (crypto.utils.ts): \<^verbatim>\<open>TXN-{timestamp}-{random}\<close>.
\<close>

definition generateTransactionReference :: "Env \<Rightarrow> string" where
  "generateTransactionReference env = ''TXN-'' @ timestamp env @ ''-'' @ random env"

section \<open>The Prisma client\<close>

text \<open>
  The repository holds two versions of \<^verbatim>\<open>PrismaService\<close>. The one in
  prisma/prisma.service.ts installs no middleware (``Soft delete middleware is not
  available in Prisma 6. Soft deletes will be handled at the application level in
  services''). The other one installs \<^verbatim>\<open>addSoftDeleteMiddleware\<close>, which for the models
  \<^verbatim>\<open>User\<close> and \<^verbatim>\<open>Wallet\<close> turns \<^verbatim>\<open>findUnique\<close> into a \<^verbatim>\<open>findFirst\<close> with
  \<^verbatim>\<open>deletedAt: null\<close> and \<^verbatim>\<open>delete\<close> into an \<^verbatim>\<open>update\<close> that sets \<^verbatim>\<open>deletedAt\<close>.
  The flag \<open>mw\<close> says whether the middleware is installed.
\<close>

definition wallet_findUnique :: "bool \<Rightarrow> DB \<Rightarrow> string \<Rightarrow> Wallet option" where
  "wallet_findUnique mw db i =
     find (\<lambda>w. wallet_id w = i \<and> (if mw then deletedAt w = None else True)) (wallets db)"

text \<open>
  \<^verbatim>\<open>tx.wallet.updateMany({where: {id, version}, data: {balance, version: {increment: 1}}})\<close>:
  returns the number of rows that matched and the store with those rows updated.
\<close>

definition wallet_updateMany :: "DB \<Rightarrow> string \<Rightarrow> nat \<Rightarrow> decimal \<Rightarrow> nat \<times> DB" where
  "wallet_updateMany db i v newBalance =
     (let hit = (\<lambda>w. wallet_id w = i \<and> version w = v)
      in (length (filter hit (wallets db)),
          db\<lparr>wallets := map (\<lambda>w. if hit w
                                  then w\<lparr>balance := newBalance, version := version w + 1\<rparr>
                                  else w) (wallets db)\<rparr>))"

text \<open>
  \<^verbatim>\<open>tx.wallet.update({where: {id}, data: {balance: {increment: d}, version: {increment: 1}}})\<close>
  (a decrement is a negative \<open>d\<close>); \<^verbatim>\<open>P2025\<close> when no row has the id.
\<close>

definition wallet_update :: "DB \<Rightarrow> string \<Rightarrow> decimal \<Rightarrow> exn + DB" where
  "wallet_update db i d =
     (if i \<in> set (map wallet_id (wallets db))
      then Inr (db\<lparr>wallets := map (\<lambda>w. if wallet_id w = i
                                      then w\<lparr>balance := balance w + d, version := version w + 1\<rparr>
                                      else w) (wallets db)\<rparr>)
      else Inl (PrismaClientKnownRequestError ''P2025''))"

text \<open>
  \<^verbatim>\<open>TransactionsService.create\<close>: one insert into \<^verbatim>\<open>transactions\<close>, under the unique
  index \<^verbatim>\<open>transactions_reference_key\<close> and the foreign key \<^verbatim>\<open>transactions_walletId_fkey\<close>.
\<close>

definition TransactionsService_create :: "DB \<Rightarrow> Transaction \<Rightarrow> exn + DB" where
  "TransactionsService_create tx dto =
     (if reference dto \<in> set (map reference (transactions tx))
      then Inl (PrismaClientKnownRequestError ''P2002'')
      else if walletId dto \<notin> set (map wallet_id (wallets tx))
      then Inl (PrismaClientKnownRequestError ''P2003'')
      else Inr (tx\<lparr>transactions := transactions tx @ [dto]\<rparr>))"

text \<open>
  \<^verbatim>\<open>AuditService.log\<close>: inserts the entry; when the insert throws, the catch block logs
  the error and throws it again.
\<close>

definition AuditService_log :: "Env \<Rightarrow> DB \<Rightarrow> AuditLog \<Rightarrow> exn + DB" where
  "AuditService_log env db dto =
     (case audit_failure env of
        Some error \<Rightarrow> Inl error
      | None \<Rightarrow> Inr (db\<lparr>auditLogs := auditLogs db @ [dto]\<rparr>))"

section \<open>The retry wrapper\<close>

definition MAX_RETRIES :: nat where
  "MAX_RETRIES = 3"

text \<open>
  The test of the catch block in \<^verbatim>\<open>executeWithRetry\<close>:
  \<^verbatim>\<open>error instanceof ConflictException && error.message.includes('Concurrent modification')\<close>.
\<close>

fun is_lock_conflict :: "exn \<Rightarrow> bool" where
  "is_lock_conflict (ConflictException message) = str_includes message ''Concurrent modification''"
| "is_lock_conflict _ = False"

text \<open>
  \<^verbatim>\<open>executeWithRetry\<close>: the loop \<^verbatim>\<open>for (attempt = 1; attempt <= retries; attempt++)\<close>.
  The operation is a function of the state of the world it runs in. The result carries,
  besides the outcome and the final state, the delays in milliseconds handed to
  \<^verbatim>\<open>setTimeout\<close>, in order.
\<close>

function retry_loop ::
  "('s \<Rightarrow> (exn + 'a) \<times> 's) \<Rightarrow> nat \<Rightarrow> nat \<Rightarrow> 's \<Rightarrow> nat list \<Rightarrow> (exn + 'a) \<times> 's \<times> nat list"
where
  "retry_loop operation retries attempt s slept =
     (if attempt \<le> retries then
        (case operation s of
           (Inr result, s') \<Rightarrow> (Inr result, s', slept)
         | (Inl error, s') \<Rightarrow>
             if is_lock_conflict error
             then retry_loop operation retries (attempt + 1) s' (slept @ [2 ^ attempt * 10])
             else (Inl error, s', slept))
      else (Inl (ConflictException ''Operation failed due to high concurrency. Please try again.''),
            s, slept))"
  by pat_completeness auto
termination
  by (relation "measure (\<lambda>(operation, retries, attempt, s, slept). Suc retries - attempt)") auto

declare retry_loop.simps [simp del]

definition executeWithRetry ::
  "('s \<Rightarrow> (exn + 'a) \<times> 's) \<Rightarrow> nat \<Rightarrow> 's \<Rightarrow> (exn + 'a) \<times> 's \<times> nat list"
where
  "executeWithRetry operation retries s = retry_loop operation retries 1 s []"

text \<open>
  An operation that also counts its own executions, as the call counter of a test double
  does: used to state how often \<^verbatim>\<open>executeWithRetry\<close> runs its operation.
\<close>

definition counted :: "('s \<Rightarrow> (exn + 'a) \<times> 's) \<Rightarrow> 's \<times> nat \<Rightarrow> (exn + 'a) \<times> 's \<times> nat" where
  "counted operation = (\<lambda>(s, n). case operation s of (r, s') \<Rightarrow> (r, s', Suc n))"

text \<open>
  The world of a retried operation: the store and the number of atomic units started so
  far. The \<open>k\<close>-th unit runs in the environment \<open>envs k\<close>.
\<close>

definition attempts ::
  "(nat \<Rightarrow> Env) \<Rightarrow> (Env \<Rightarrow> DB \<Rightarrow> (exn + 'a) \<times> DB) \<Rightarrow> DB \<times> nat \<Rightarrow> (exn + 'a) \<times> DB \<times> nat"
where
  "attempts envs unit = (\<lambda>(db, k). case unit (envs k) db of (r, db') \<Rightarrow> (r, db', Suc k))"

section \<open>WalletsService\<close>

text \<open>
  The names the specification gives to the failures the service throws.
\<close>

definition ConcurrentModification :: exn where
  "ConcurrentModification = ConflictException ''Concurrent modification detected - retry''"

definition HighContention :: exn where
  "HighContention = ConflictException ''Operation failed due to high concurrency. Please try again.''"

definition InsufficientFunds :: "Wallet \<Rightarrow> exn" where
  "InsufficientFunds wallet =
     BadRequestException (''Insufficient funds. Available balance: '' @ toString (balance wallet) @
                          '' '' @ currency wallet)"

text \<open>The wallet invariant of the data model: no stored balance is negative.\<close>

definition balances_nonnegative :: "DB \<Rightarrow> bool" where
  "balances_nonnegative db = list_all (\<lambda>w. 0 \<le> balance w) (wallets db)"

text \<open>\<^verbatim>\<open>dto.reference || generateTransactionReference()\<close>: the empty string is falsy.\<close>

definition reference_or_generated :: "Env \<Rightarrow> string option \<Rightarrow> string" where
  "reference_or_generated env r =
     (case r of
        None \<Rightarrow> generateTransactionReference env
      | Some s \<Rightarrow> if s = [] then generateTransactionReference env else s)"

text \<open>
  The callback that \<^verbatim>\<open>withdraw\<close> hands to \<^verbatim>\<open>prisma.$transaction\<close>: one atomic unit.
  A throw rolls the unit's own writes back, so the store that remains is the one the
  other writers left: \<open>db\<close> before the conditional write, \<open>concurrent env db\<close> after it.
  The audit entry is written through the service's own client, outside the unit. The
  result is what the last \<^verbatim>\<open>findUnique\<close> returned (\<^verbatim>\<open>updatedWallet!\<close> is not checked
  at run time).
\<close>

definition withdraw_unit ::
  "bool \<Rightarrow> string \<Rightarrow> WithdrawWalletDto \<Rightarrow> string \<Rightarrow> string option \<Rightarrow> string option \<Rightarrow>
   Env \<Rightarrow> DB \<Rightarrow> (exn + Wallet option) \<times> DB"
where
  "withdraw_unit mw i dto performedBy ip' userAgent' env db =
     (case wallet_findUnique mw db i of
        None \<Rightarrow> (Inl (NotFoundException ''Wallet not found''), db)
      | Some wallet \<Rightarrow>
          if deletedAt wallet \<noteq> None
          then (Inl (BadRequestException ''Wallet has been deleted''), db)
          else
            let amount' = dto_amount dto;
                balanceBefore' = balance wallet;
                balanceAfter' = balanceBefore' - amount'
            in if balanceAfter' < 0 then (Inl (InsufficientFunds wallet), db)
               else
                 let others = concurrent env db;
                     (count, tx1) = wallet_updateMany others i (version wallet) balanceAfter'
                 in if count = 0 then (Inl ConcurrentModification, others)
                    else
                      let reference' = reference_or_generated env (dto_reference dto)
                      in case TransactionsService_create tx1
                                \<lparr>walletId = i, txn_type = DEBIT, amount = amount',
                                 balanceBefore = balanceBefore', balanceAfter = balanceAfter',
                                 reference = reference', description = dto_description dto,
                                 metadata = dto_metadata dto, performedByUserId = performedBy\<rparr> of
                           Inl error \<Rightarrow> (Inl error, others)
                         | Inr tx2 \<Rightarrow>
                             let updatedWallet = wallet_findUnique mw tx2 i
                             in case AuditService_log env tx2
                                       \<lparr>actorUserId = Some performedBy, entity = ''Wallet'',
                                        entityId = i, action = UPDATE,
                                        changes = Some [(''operation'', ''WITHDRAW''),
                                                        (''amount'', toString amount'),
                                                        (''balanceBefore'', toString balanceBefore'),
                                                        (''balanceAfter'', toString balanceAfter'),
                                                        (''reference'', reference')],
                                        ip = ip', userAgent = userAgent'\<rparr> of
                                  Inl error \<Rightarrow> (Inl error, others)
                                | Inr tx3 \<Rightarrow> (Inr updatedWallet, tx3))"

definition withdraw ::
  "bool \<Rightarrow> string \<Rightarrow> WithdrawWalletDto \<Rightarrow> string \<Rightarrow> string option \<Rightarrow> string option \<Rightarrow>
   (nat \<Rightarrow> Env) \<Rightarrow> DB \<Rightarrow> (exn + Wallet option) \<times> (DB \<times> nat) \<times> nat list"
where
  "withdraw mw i dto performedBy ip' userAgent' envs db =
     executeWithRetry (attempts envs (withdraw_unit mw i dto performedBy ip' userAgent'))
       MAX_RETRIES (db, 0)"

text \<open>The callback of \<^verbatim>\<open>fund\<close>: the same unit without the sufficiency check.\<close>

definition fund_unit ::
  "bool \<Rightarrow> string \<Rightarrow> FundWalletDto \<Rightarrow> string \<Rightarrow> string option \<Rightarrow> string option \<Rightarrow>
   Env \<Rightarrow> DB \<Rightarrow> (exn + Wallet option) \<times> DB"
where
  "fund_unit mw i dto performedBy ip' userAgent' env db =
     (case wallet_findUnique mw db i of
        None \<Rightarrow> (Inl (NotFoundException ''Wallet not found''), db)
      | Some wallet \<Rightarrow>
          if deletedAt wallet \<noteq> None
          then (Inl (BadRequestException ''Wallet has been deleted''), db)
          else
            let amount' = dto_amount dto;
                balanceBefore' = balance wallet;
                balanceAfter' = balanceBefore' + amount';
                others = concurrent env db;
                (count, tx1) = wallet_updateMany others i (version wallet) balanceAfter'
            in if count = 0 then (Inl ConcurrentModification, others)
               else
                 let reference' = reference_or_generated env (dto_reference dto)
                 in case TransactionsService_create tx1
                           \<lparr>walletId = i, txn_type = CREDIT, amount = amount',
                            balanceBefore = balanceBefore', balanceAfter = balanceAfter',
                            reference = reference', description = dto_description dto,
                            metadata = dto_metadata dto, performedByUserId = performedBy\<rparr> of
                      Inl error \<Rightarrow> (Inl error, others)
                    | Inr tx2 \<Rightarrow>
                        let updatedWallet = wallet_findUnique mw tx2 i
                        in case AuditService_log env tx2
                                  \<lparr>actorUserId = Some performedBy, entity = ''Wallet'',
                                   entityId = i, action = UPDATE,
                                   changes = Some [(''operation'', ''FUND''),
                                                   (''amount'', toString amount'),
                                                   (''balanceBefore'', toString balanceBefore'),
                                                   (''balanceAfter'', toString balanceAfter'),
                                                   (''reference'', reference')],
                                   ip = ip', userAgent = userAgent'\<rparr> of
                             Inl error \<Rightarrow> (Inl error, others)
                           | Inr tx3 \<Rightarrow> (Inr updatedWallet, tx3))"

definition fund ::
  "bool \<Rightarrow> string \<Rightarrow> FundWalletDto \<Rightarrow> string \<Rightarrow> string option \<Rightarrow> string option \<Rightarrow>
   (nat \<Rightarrow> Env) \<Rightarrow> DB \<Rightarrow> (exn + Wallet option) \<times> (DB \<times> nat) \<times> nat list"
where
  "fund mw i dto performedBy ip' userAgent' envs db =
     executeWithRetry (attempts envs (fund_unit mw i dto performedBy ip' userAgent'))
       MAX_RETRIES (db, 0)"

text \<open>
  The validators of \<^verbatim>\<open>FundWalletDto\<close> and \<^verbatim>\<open>WithdrawWalletDto\<close>, run by the global
  \<^verbatim>\<open>ValidationPipe\<close> on a request body: \<^verbatim>\<open>@IsPositive\<close> on the amount
  (\<^verbatim>\<open>maxDecimalPlaces: 4\<close> holds of every \<open>decimal\<close>), \<^verbatim>\<open>@MaxLength(100)\<close> on the
  reference, \<^verbatim>\<open>@MaxLength(500)\<close> on the description.
\<close>

definition validate_FundWalletDto :: "FundWalletDto \<Rightarrow> bool" where
  "validate_FundWalletDto dto =
     (0 < dto_amount dto \<and>
      (case dto_reference dto of None \<Rightarrow> True | Some r \<Rightarrow> length r \<le> 100) \<and>
      (case dto_description dto of None \<Rightarrow> True | Some d \<Rightarrow> length d \<le> 500))"

subsection \<open>transfer\<close>

text \<open>\<^verbatim>\<open>description || fallback\<close>: undefined and the empty string are falsy.\<close>

definition description_or :: "string option \<Rightarrow> string \<Rightarrow> string" where
  "description_or d fallback = (case d of None \<Rightarrow> fallback | Some s \<Rightarrow> if s = [] then fallback else s)"

text \<open>
  \<^verbatim>\<open>transfer\<close> is one \<^verbatim>\<open>prisma.$transaction\<close>: it locks both rows
  (\<^verbatim>\<open>SELECT ... FOR UPDATE\<close>, so no other writer comes between), reads them, checks,
  and writes. A throw anywhere rolls everything back.
\<close>

definition transfer ::
  "bool \<Rightarrow> string \<Rightarrow> string \<Rightarrow> decimal \<Rightarrow> string \<Rightarrow> string option \<Rightarrow> Env \<Rightarrow> DB \<Rightarrow>
   (exn + Wallet option \<times> Wallet option) \<times> DB"
where
  "transfer mw fromWalletId toWalletId amount' performedBy description' env db =
     (case wallet_findUnique mw db fromWalletId of
        None \<Rightarrow> (Inl (NotFoundException ''One or both wallets not found''), db)
      | Some fromWallet \<Rightarrow>
     (case wallet_findUnique mw db toWalletId of
        None \<Rightarrow> (Inl (NotFoundException ''One or both wallets not found''), db)
      | Some toWallet \<Rightarrow>
          if currency fromWallet \<noteq> currency toWallet
          then (Inl (BadRequestException
                       ''Cross-currency transfers require conversion (not implemented)''), db)
          else if balance fromWallet < amount'
          then (Inl (BadRequestException ''Insufficient funds''), db)
          else
            let reference' = generateTransactionReference env
            in
           (case wallet_update db fromWalletId (- amount') of
              Inl error \<Rightarrow> (Inl error, db)
            | Inr tx1 \<Rightarrow>
           (case TransactionsService_create tx1
                   \<lparr>walletId = fromWalletId, txn_type = DEBIT, amount = amount',
                    balanceBefore = balance fromWallet,
                    balanceAfter = balance fromWallet - amount',
                    reference = reference' @ ''-OUT'',
                    description =
                      Some (description_or description' (''Transfer to wallet '' @ toWalletId)),
                    metadata = Some [(''toWalletId'', toWalletId)],
                    performedByUserId = performedBy\<rparr> of
              Inl error \<Rightarrow> (Inl error, db)
            | Inr tx2 \<Rightarrow>
           (case wallet_update tx2 toWalletId amount' of
              Inl error \<Rightarrow> (Inl error, db)
            | Inr tx3 \<Rightarrow>
           (case TransactionsService_create tx3
                   \<lparr>walletId = toWalletId, txn_type = CREDIT, amount = amount',
                    balanceBefore = balance toWallet,
                    balanceAfter = balance toWallet + amount',
                    reference = reference' @ ''-IN'',
                    description =
                      Some (description_or description' (''Transfer from wallet '' @ fromWalletId)),
                    metadata = Some [(''fromWalletId'', fromWalletId)],
                    performedByUserId = performedBy\<rparr> of
              Inl error \<Rightarrow> (Inl error, db)
            | Inr tx4 \<Rightarrow>
                (Inr (wallet_findUnique mw tx4 fromWalletId, wallet_findUnique mw tx4 toWalletId),
                 tx4)))))))"

subsection \<open>delete\<close>

definition findByIdOrFail :: "bool \<Rightarrow> DB \<Rightarrow> string \<Rightarrow> exn + Wallet" where
  "findByIdOrFail mw db i =
     (case wallet_findUnique mw db i of
        None \<Rightarrow> Inl (NotFoundException ''Wallet not found'')
      | Some wallet \<Rightarrow> Inr wallet)"

text \<open>
  \<^verbatim>\<open>prisma.wallet.delete({where: {id}})\<close>. With the middleware it is rewritten to an
  \<^verbatim>\<open>update\<close> with \<^verbatim>\<open>data = {deletedAt: new Date()}\<close>. Without it, it is SQL
  \<^verbatim>\<open>DELETE\<close>: the row goes, and \<^verbatim>\<open>transactions_walletId_fkey\<close> is declared
  \<^verbatim>\<open>ON DELETE CASCADE\<close>, so the wallet's ledger entries go with it.
\<close>

definition wallet_delete :: "bool \<Rightarrow> Env \<Rightarrow> DB \<Rightarrow> string \<Rightarrow> exn + DB" where
  "wallet_delete mw env db i =
     (if i \<notin> set (map wallet_id (wallets db)) then Inl (PrismaClientKnownRequestError ''P2025'')
      else if mw
      then Inr (db\<lparr>wallets := map (\<lambda>w. if wallet_id w = i then w\<lparr>deletedAt := Some (now env)\<rparr> else w)
                                  (wallets db)\<rparr>)
      else Inr (db\<lparr>wallets := filter (\<lambda>w. wallet_id w \<noteq> i) (wallets db),
                   transactions := filter (\<lambda>t. walletId t \<noteq> i) (transactions db)\<rparr>))"

text \<open>
  \<^verbatim>\<open>delete\<close> runs outside any transaction: what the store has done when the audit call
  throws stays done.
\<close>

definition delete ::
  "bool \<Rightarrow> string \<Rightarrow> string \<Rightarrow> string option \<Rightarrow> string option \<Rightarrow> Env \<Rightarrow> DB \<Rightarrow> (exn + unit) \<times> DB"
where
  "delete mw i userId' ip' userAgent' env db =
     (case findByIdOrFail mw db i of
        Inl error \<Rightarrow> (Inl error, db)
      | Inr wallet \<Rightarrow>
          if userId wallet \<noteq> userId' then (Inl (NotFoundException ''Wallet not found''), db)
          else
            case wallet_delete mw env db i of
              Inl error \<Rightarrow> (Inl error, db)
            | Inr db1 \<Rightarrow>
                case AuditService_log env db1
                       \<lparr>actorUserId = Some userId', entity = ''Wallet'', entityId = i,
                        action = DELETE,
                        changes = Some [(''name'', name wallet), (''currency'', currency wallet)],
                        ip = ip', userAgent = userAgent'\<rparr> of
                  Inl error \<Rightarrow> (Inl error, db1)
                | Inr db2 \<Rightarrow> (Inr (), db2))"

subsection \<open>create\<close>

definition SUPPORTED_CURRENCIES :: "string list" where
  "SUPPORTED_CURRENCIES =
     [''NGN'', ''USD'', ''EUR'', ''GBP'', ''KES'', ''GHS'', ''AUD'', ''CAD'', ''ZAR'']"

definition upper_letters :: string where
  "upper_letters = ''ABCDEFGHIJKLMNOPQRSTUVWXYZ''"

definition lower_letters :: string where
  "lower_letters = ''abcdefghijklmnopqrstuvwxyz''"

text \<open>\<^verbatim>\<open>String.prototype.toUpperCase\<close> on ASCII text.\<close>

definition toUpperCase :: "string \<Rightarrow> string" where
  "toUpperCase s =
     map (\<lambda>c. case map_of (zip lower_letters upper_letters) c of None \<Rightarrow> c | Some u \<Rightarrow> u) s"

text \<open>
  The validators of \<^verbatim>\<open>CreateWalletDto\<close>: \<^verbatim>\<open>@IsNotEmpty\<close> and \<^verbatim>\<open>@Length(1, 100)\<close>
  on the name, \<^verbatim>\<open>@Length(3, 3)\<close> and \<^verbatim>\<open>@Matches(/^[A-Z]{3}$/)\<close> on the currency.
  \<open>SUPPORTED_CURRENCIES\<close> is exported by the same file and read by no validator.
\<close>

definition validate_CreateWalletDto :: "CreateWalletDto \<Rightarrow> bool" where
  "validate_CreateWalletDto dto =
     (dto_name dto \<noteq> [] \<and> 1 \<le> length (dto_name dto) \<and> length (dto_name dto) \<le> 100 \<and>
      length (dto_currency dto) = 3 \<and>
      list_all (\<lambda>c. c \<in> set upper_letters) (dto_currency dto))"

text \<open>
  \<^verbatim>\<open>prisma.wallet.create\<close>: one insert into \<^verbatim>\<open>wallets\<close>, whose \<^verbatim>\<open>currency\<close> column is
  \<^verbatim>\<open>VARCHAR(3)\<close>, under the primary key and the unique index
  \<^verbatim>\<open>wallets_userId_name_currency_key\<close>.
\<close>

definition wallet_create :: "DB \<Rightarrow> Wallet \<Rightarrow> exn + DB" where
  "wallet_create db row =
     (if 3 < length (currency row) then Inl (PrismaClientKnownRequestError ''P2000'')
      else if wallet_id row \<in> set (map wallet_id (wallets db))
      then Inl (PrismaClientKnownRequestError ''P2002'')
      else if (userId row, name row, currency row)
                \<in> set (map (\<lambda>w. (userId w, name w, currency w)) (wallets db))
      then Inl (PrismaClientKnownRequestError ''P2002'')
      else Inr (db\<lparr>wallets := wallets db @ [row]\<rparr>))"

definition create ::
  "string \<Rightarrow> CreateWalletDto \<Rightarrow> string option \<Rightarrow> string option \<Rightarrow> Env \<Rightarrow> DB \<Rightarrow> (exn + Wallet) \<times> DB"
where
  "create userId' dto ip' userAgent' env db =
     (let wallet = \<lparr>wallet_id = uuid env, name = dto_name dto,
                    currency = toUpperCase (dto_currency dto), balance = 0, version = 0,
                    userId = userId', deletedAt = None\<rparr>
      in case wallet_create db wallet of
           Inl error \<Rightarrow> (Inl error, db)
         | Inr db1 \<Rightarrow>
             case AuditService_log env db1
                    \<lparr>actorUserId = Some userId', entity = ''Wallet'', entityId = wallet_id wallet,
                     action = CREATE,
                     changes = Some [(''name'', name wallet), (''currency'', currency wallet)],
                     ip = ip', userAgent = userAgent'\<rparr> of
               Inl error \<Rightarrow> (Inl error, db1)
             | Inr db2 \<Rightarrow> (Inr wallet, db2))"

text \<open>
  \<^verbatim>\<open>WalletsController.create\<close> (\<^verbatim>\<open>POST /wallets\<close>): the \<^verbatim>\<open>ValidationPipe\<close> rejects
  a body that fails a validator with a 400 before the service runs.
\<close>

definition WalletsController_create ::
  "string \<Rightarrow> CreateWalletDto \<Rightarrow> string option \<Rightarrow> string option \<Rightarrow> Env \<Rightarrow> DB \<Rightarrow> (exn + Wallet) \<times> DB"
where
  "WalletsController_create userId' dto ip' userAgent' env db =
     (if validate_CreateWalletDto dto then create userId' dto ip' userAgent' env db
      else (Inl (BadRequestException ''Bad Request Exception''), db))"

section \<open>Fixtures\<close>

text \<open>
  A small store for the concrete runs below: two NGN wallets and one USD wallet, the
  first funded once with 1000.0000 under the reference \<^verbatim>\<open>FUND-001\<close>; and an
  environment in which nobody else writes and the audit store works.
\<close>

definition wallet123 :: Wallet where
  "wallet123 = \<lparr>wallet_id = ''wallet-123'', name = ''Test Wallet'', currency = ''NGN'',
                 balance = 10000000, version = 1, userId = ''user-123'', deletedAt = None\<rparr>"

definition wallet456 :: Wallet where
  "wallet456 = \<lparr>wallet_id = ''wallet-456'', name = ''Savings'', currency = ''NGN'',
                 balance = 0, version = 0, userId = ''user-456'', deletedAt = None\<rparr>"

definition wallet789 :: Wallet where
  "wallet789 = \<lparr>wallet_id = ''wallet-789'', name = ''Dollars'', currency = ''USD'',
                 balance = 0, version = 0, userId = ''user-123'', deletedAt = None\<rparr>"

definition fund001 :: Transaction where
  "fund001 = \<lparr>walletId = ''wallet-123'', txn_type = CREDIT, amount = 10000000,
               balanceBefore = 0, balanceAfter = 10000000, reference = ''FUND-001'',
               description = Some ''Initial deposit'', metadata = None,
               performedByUserId = ''user-123''\<rparr>"

definition store :: DB where
  "store = \<lparr>wallets = [wallet123, wallet456, wallet789], transactions = [fund001],
             auditLogs = []\<rparr>"

definition quiet :: Env where
  "quiet = \<lparr>concurrent = (\<lambda>db. db), timestamp = ''MHK3T2Q9'', random = ''9F1C2B7A'',
             now = 1762128000, uuid = ''wallet-900'', audit_failure = None\<rparr>"

text \<open>An environment in which another writer commits a credit of 5.0000 to the first
  wallet between the unit's read and its conditional write.\<close>

definition racing :: Env where
  "racing = quiet\<lparr>concurrent :=
     (\<lambda>db. db\<lparr>wallets := map (\<lambda>w. if wallet_id w = ''wallet-123''
                                     then w\<lparr>balance := balance w + 50000, version := version w + 1\<rparr>
                                     else w) (wallets db)\<rparr>)\<rparr>"

text \<open>Schedules for a retried operation: every unit runs in \<open>quiet\<close>; or every unit
  runs in \<open>quiet\<close> with the audit store rejecting its insert.\<close>

definition calm :: "nat \<Rightarrow> Env" where
  "calm k = quiet"

definition audit_down :: "nat \<Rightarrow> Env" where
  "audit_down k = quiet\<lparr>audit_failure := Some (Error ''audit store unavailable'')\<rparr>"

definition amount_dto :: "decimal \<Rightarrow> string option \<Rightarrow> FundWalletDto" where
  "amount_dto a r = \<lparr>dto_amount = a, dto_reference = r, dto_description = None, dto_metadata = None\<rparr>"

section \<open>Properties\<close>

subsection \<open>Decimals, the retry loop and non-negative balances\<close>

lemma show_nat_digit: "n < 10 \<Longrightarrow> show_nat n = [digit n]"
  by (subst show_nat.simps) simp

lemma show_nat_more: "10 \<le> n \<Longrightarrow> show_nat n = show_nat (n div 10) @ [digit (n mod 10)]"
  by (subst show_nat.simps) simp

lemmas toString_simps = toString_def fraction_def digit_def show_nat_digit show_nat_more

lemma lock_conflict_ConcurrentModification: "is_lock_conflict ConcurrentModification"
  by (simp add: ConcurrentModification_def)

lemma lock_conflict_HighContention: "\<not> is_lock_conflict HighContention"
  by (simp add: HighContention_def)

lemma retry_loop_success:
  "attempt \<le> retries \<Longrightarrow> operation s = (Inr v, s') \<Longrightarrow>
   retry_loop operation retries attempt s slept = (Inr v, s', slept)"
  by (subst retry_loop.simps) simp

lemma retry_loop_error:
  "attempt \<le> retries \<Longrightarrow> operation s = (Inl e, s') \<Longrightarrow> \<not> is_lock_conflict e \<Longrightarrow>
   retry_loop operation retries attempt s slept = (Inl e, s', slept)"
  by (subst retry_loop.simps) simp

lemma retry_loop_conflict:
  "attempt \<le> retries \<Longrightarrow> operation s = (Inl e, s') \<Longrightarrow> is_lock_conflict e \<Longrightarrow>
   retry_loop operation retries attempt s slept =
   retry_loop operation retries (Suc attempt) s' (slept @ [2 ^ attempt * 10])"
  by (subst retry_loop.simps) simp

lemma retry_loop_exhausted:
  "retries < attempt \<Longrightarrow>
   retry_loop operation retries attempt s slept = (Inl HighContention, s, slept)"
  by (subst retry_loop.simps) (simp add: HighContention_def)

lemma retry_loop_no_leak:
  "fst (retry_loop operation retries attempt s slept) = Inl e \<Longrightarrow> \<not> is_lock_conflict e"
proof (induction operation retries attempt s slept rule: retry_loop.induct)
  case (1 operation retries attempt s slept)
  show ?case
  proof (cases "attempt \<le> retries")
    case False
    with "1.prems" show ?thesis
      by (simp add: retry_loop_exhausted lock_conflict_HighContention)
  next
    case True
    obtain r s' where op: "operation s = (r, s')" by (cases "operation s")
    show ?thesis
    proof (cases r)
      case (Inr v)
      with True op "1.prems" show ?thesis by (simp add: retry_loop_success)
    next
      case (Inl e')
      show ?thesis
      proof (cases "is_lock_conflict e'")
        case False
        with True op Inl "1.prems" show ?thesis by (simp add: retry_loop_error)
      next
        case c: True
        from True op Inl c "1.prems"
        have "fst (retry_loop operation retries (attempt + 1) s' (slept @ [2 ^ attempt * 10])) = Inl e"
          by (simp add: retry_loop_conflict)
        with "1.IH"[OF True op[symmetric] Inl c] show ?thesis by simp
      qed
    qed
  qed
qed

lemma retry_loop_invariant:
  "(\<And>s r s'. P s \<Longrightarrow> operation s = (r, s') \<Longrightarrow> P s') \<Longrightarrow> P s \<Longrightarrow>
   P (fst (snd (retry_loop operation retries attempt s slept)))"
proof (induction operation retries attempt s slept rule: retry_loop.induct)
  case (1 operation retries attempt s slept)
  show ?case
  proof (cases "attempt \<le> retries")
    case False
    with "1.prems" show ?thesis by (simp add: retry_loop_exhausted)
  next
    case True
    obtain r s' where op: "operation s = (r, s')" by (cases "operation s")
    have P': "P s'" using "1.prems" op by blast
    show ?thesis
    proof (cases r)
      case (Inr v)
      with True op P' show ?thesis by (simp add: retry_loop_success)
    next
      case (Inl e')
      show ?thesis
      proof (cases "is_lock_conflict e'")
        case False
        with True op Inl P' show ?thesis by (simp add: retry_loop_error)
      next
        case c: True
        have "P (fst (snd (retry_loop operation retries (attempt + 1) s' (slept @ [2 ^ attempt * 10]))))"
          using "1.IH"[OF True op[symmetric] Inl c _ P'] "1.prems"(1) by blast
        with True op Inl c show ?thesis by (simp add: retry_loop_conflict)
      qed
    qed
  qed
qed

lemma retry_loop_slept:
  "\<exists>m. m \<le> Suc retries - attempt \<and>
       snd (snd (retry_loop operation retries attempt s slept)) =
       slept @ map (\<lambda>a. 2 ^ a * 10) [attempt ..< attempt + m]"
proof (induction operation retries attempt s slept rule: retry_loop.induct)
  case (1 operation retries attempt s slept)
  show ?case
  proof (cases "attempt \<le> retries")
    case False
    then show ?thesis by (intro exI[of _ 0]) (simp add: retry_loop_exhausted)
  next
    case True
    obtain r s' where op: "operation s = (r, s')" by (cases "operation s")
    show ?thesis
    proof (cases r)
      case (Inr v)
      with True op show ?thesis by (intro exI[of _ 0]) (simp add: retry_loop_success)
    next
      case (Inl e')
      show ?thesis
      proof (cases "is_lock_conflict e'")
        case False
        with True op Inl show ?thesis by (intro exI[of _ 0]) (simp add: retry_loop_error)
      next
        case c: True
        from "1.IH"[OF True op[symmetric] Inl c]
        obtain m where m: "m \<le> Suc retries - (attempt + 1)"
          and sl: "snd (snd (retry_loop operation retries (attempt + 1) s' (slept @ [2 ^ attempt * 10]))) =
                   (slept @ [2 ^ attempt * 10]) @ map (\<lambda>a. 2 ^ a * 10) [attempt + 1 ..< attempt + 1 + m]"
          by blast
        have "[attempt ..< attempt + Suc m] = attempt # [attempt + 1 ..< attempt + 1 + m]"
          by (simp add: upt_conv_Cons)
        with True op Inl c m sl show ?thesis
          by (intro exI[of _ "Suc m"]) (simp add: retry_loop_conflict)
      qed
    qed
  qed
qed

lemma retry_loop_counted:
  "fst (snd (retry_loop (counted operation) retries attempt (s, n) slept)) = (s', n') \<Longrightarrow>
   n \<le> n' \<and> n' \<le> n + (Suc retries - attempt)"
proof (induction "counted operation" retries attempt "(s, n)" slept arbitrary: s n
       rule: retry_loop.induct)
  case (1 retries attempt slept s n)
  show ?case
  proof (cases "attempt \<le> retries")
    case False
    with "1.prems" show ?thesis by (simp add: retry_loop_exhausted)
  next
    case True
    obtain r s1 where op: "operation s = (r, s1)" by (cases "operation s")
    then have cop: "counted operation (s, n) = (r, (s1, Suc n))" by (simp add: counted_def)
    show ?thesis
    proof (cases r)
      case (Inr v)
      with True cop "1.prems" show ?thesis by (auto simp add: retry_loop_success)
    next
      case (Inl e')
      show ?thesis
      proof (cases "is_lock_conflict e'")
        case False
        with True cop Inl "1.prems" show ?thesis by (auto simp add: retry_loop_error)
      next
        case c: True
        from True cop Inl c "1.prems"
        have "fst (snd (retry_loop (counted operation) retries (attempt + 1) (s1, Suc n)
                 (slept @ [2 ^ attempt * 10]))) = (s', n')"
          by (simp add: retry_loop_conflict)
        from "1.hyps"[OF True cop[symmetric] Inl c this] True show ?thesis by auto
      qed
    qed
  qed
qed


lemma executeWithRetry_first_error:
  "operation s = (Inl e, s') \<Longrightarrow> \<not> is_lock_conflict e \<Longrightarrow>
   executeWithRetry operation MAX_RETRIES s = (Inl e, s', [])"
  by (simp add: executeWithRetry_def MAX_RETRIES_def retry_loop_error)

lemma executeWithRetry_first_success:
  "operation s = (Inr v, s') \<Longrightarrow> executeWithRetry operation MAX_RETRIES s = (Inr v, s', [])"
  by (simp add: executeWithRetry_def MAX_RETRIES_def retry_loop_success)

lemma not_lock_conflict_InsufficientFunds: "\<not> is_lock_conflict (InsufficientFunds wallet)"
  by (simp add: InsufficientFunds_def)

lemma withdraw_unit_insufficient:
  "wallet_findUnique mw db i = Some wallet \<Longrightarrow> deletedAt wallet = None \<Longrightarrow>
   balance wallet < dto_amount dto \<Longrightarrow>
   withdraw_unit mw i dto performedBy ip' userAgent' env db = (Inl (InsufficientFunds wallet), db)"
  by (simp add: withdraw_unit_def)

lemma wallet_updateMany_wallets:
  "snd (wallet_updateMany db i v b) =
   db\<lparr>wallets := map (\<lambda>w. if wallet_id w = i \<and> version w = v
                           then w\<lparr>balance := b, version := version w + 1\<rparr> else w) (wallets db)\<rparr>"
  by (simp add: wallet_updateMany_def Let_def)

lemma wallet_updateMany_count:
  "fst (wallet_updateMany db i v b) =
   length (filter (\<lambda>w. wallet_id w = i \<and> version w = v) (wallets db))"
  by (simp add: wallet_updateMany_def Let_def)

lemma wallet_updateMany_nonnegative:
  "balances_nonnegative db \<Longrightarrow> 0 \<le> b \<Longrightarrow> balances_nonnegative (snd (wallet_updateMany db i v b))"
  by (auto simp add: wallet_updateMany_wallets balances_nonnegative_def list_all_iff)

lemma TransactionsService_create_wallets:
  "TransactionsService_create tx dto = Inr tx' \<Longrightarrow> wallets tx' = wallets tx"
  by (auto simp add: TransactionsService_create_def split: if_splits)

lemma AuditService_log_wallets:
  "AuditService_log env db dto = Inr db' \<Longrightarrow> wallets db' = wallets db"
  by (auto simp add: AuditService_log_def split: option.splits)

lemma withdraw_unit_nonnegative:
  assumes "balances_nonnegative db" and "balances_nonnegative (concurrent env db)"
  shows "balances_nonnegative (snd (withdraw_unit mw i dto performedBy ip' userAgent' env db))"
proof (cases "wallet_findUnique mw db i")
  case None
  with assms show ?thesis by (simp add: withdraw_unit_def)
next
  case (Some wallet)
  let ?after = "balance wallet - dto_amount dto"
  let ?tx1 = "snd (wallet_updateMany (concurrent env db) i (version wallet) ?after)"
  show ?thesis
  proof (cases "deletedAt wallet \<noteq> None \<or> ?after < 0")
    case True
    with Some assms show ?thesis by (auto simp add: withdraw_unit_def)
  next
    case False
    then have "0 \<le> ?after" by simp
    with assms(2) have tx1: "balances_nonnegative ?tx1" by (rule wallet_updateMany_nonnegative)
    have w: "\<And>tx2. wallets tx2 = wallets ?tx1 \<Longrightarrow> balances_nonnegative tx2"
      using tx1 by (simp add: balances_nonnegative_def)
    from Some False assms(2) show ?thesis
      by (auto simp add: withdraw_unit_def Let_def split_beta
               split: sum.splits
               dest!: TransactionsService_create_wallets AuditService_log_wallets
               intro!: w)
  qed
qed

subsection \<open>Withdrawing more than the balance\<close>

lemma withdraw_insufficient_wrapped:
  assumes "wallet_findUnique mw db i = Some wallet" and "deletedAt wallet = None"
    and "balance wallet < dto_amount dto"
  shows "withdraw mw i dto performedBy ip' userAgent' envs db =
         (Inl (InsufficientFunds wallet), (db, 1), [])"
proof -
  have "attempts envs (withdraw_unit mw i dto performedBy ip' userAgent') (db, 0) =
        (Inl (InsufficientFunds wallet), (db, 1))"
    using assms by (simp add: attempts_def withdraw_unit_insufficient)
  then show ?thesis
    unfolding withdraw_def
    by (rule executeWithRetry_first_error) (rule not_lock_conflict_InsufficientFunds)
qed

lemma withdraw_nonnegative:
  assumes "balances_nonnegative db"
    and env: "\<And>k d. balances_nonnegative d \<Longrightarrow> balances_nonnegative (concurrent (envs k) d)"
  shows "balances_nonnegative (fst (fst (snd (withdraw mw i dto performedBy ip' userAgent' envs db))))"
proof -
  let ?P = "\<lambda>s :: DB \<times> nat. balances_nonnegative (fst s)"
  have step: "\<And>s r s'. ?P s \<Longrightarrow>
      attempts envs (withdraw_unit mw i dto performedBy ip' userAgent') s = (r, s') \<Longrightarrow> ?P s'"
  proof -
    fix s :: "DB \<times> nat" and r :: "exn + Wallet option" and s'
    assume P: "?P s"
      and a: "attempts envs (withdraw_unit mw i dto performedBy ip' userAgent') s = (r, s')"
    obtain d k where s: "s = (d, k)" by (cases s)
    have "balances_nonnegative (snd (withdraw_unit mw i dto performedBy ip' userAgent' (envs k) d))"
      using P s env by (intro withdraw_unit_nonnegative) simp_all
    with a s show "?P s'" by (auto simp add: attempts_def split: prod.splits)
  qed
  have "?P (fst (snd (retry_loop (attempts envs (withdraw_unit mw i dto performedBy ip' userAgent'))
                         MAX_RETRIES 1 (db, 0) [])))"
    by (rule retry_loop_invariant[where P = ?P]) (use step assms(1) in auto)
  then show ?thesis by (simp add: withdraw_def executeWithRetry_def)
qed

text \<open>
  C1. For a wallet that is found and not deleted and an amount above its balance, the
  unit of \<^verbatim>\<open>withdraw\<close> fails with the insufficient-funds \<^verbatim>\<open>BadRequestException\<close> and
  returns the store as it was (balance, version and ledger untouched); \<^verbatim>\<open>withdraw\<close>
  itself returns that error after its first attempt, without sleeping. The check is made
  on the balance the unit has just read, and the balance it writes is that balance minus
  the amount, so no outcome of the unit, and no outcome of \<^verbatim>\<open>withdraw\<close> with its
  retries, makes a balance negative in a store whose balances the other writers keep
  non-negative.
\<close>

theorem C1_withdraw_insufficient_funds:
  "(wallet_findUnique mw db i = Some wallet \<and> deletedAt wallet = None \<and>
    balance wallet < dto_amount dto \<longrightarrow>
      withdraw_unit mw i dto performedBy ip' userAgent' env db = (Inl (InsufficientFunds wallet), db) \<and>
      withdraw mw i dto performedBy ip' userAgent' envs db =
        (Inl (InsufficientFunds wallet), (db, 1), [])) \<and>
   (balances_nonnegative db \<and> balances_nonnegative (concurrent env db) \<longrightarrow>
      balances_nonnegative (snd (withdraw_unit mw i dto performedBy ip' userAgent' env db))) \<and>
   (balances_nonnegative db \<and>
    (\<forall>k d. balances_nonnegative d \<longrightarrow> balances_nonnegative (concurrent (envs k) d)) \<longrightarrow>
      balances_nonnegative
        (fst (fst (snd (withdraw mw i dto performedBy ip' userAgent' envs db)))))"
proof (intro conjI impI)
  assume "wallet_findUnique mw db i = Some wallet \<and> deletedAt wallet = None \<and>
          balance wallet < dto_amount dto"
  then show "withdraw_unit mw i dto performedBy ip' userAgent' env db =
             (Inl (InsufficientFunds wallet), db)"
    by (simp add: withdraw_unit_insufficient)
next
  assume "wallet_findUnique mw db i = Some wallet \<and> deletedAt wallet = None \<and>
          balance wallet < dto_amount dto"
  then show "withdraw mw i dto performedBy ip' userAgent' envs db =
             (Inl (InsufficientFunds wallet), (db, 1), [])"
    by (intro withdraw_insufficient_wrapped) simp_all
next
  assume "balances_nonnegative db \<and> balances_nonnegative (concurrent env db)"
  then show "balances_nonnegative (snd (withdraw_unit mw i dto performedBy ip' userAgent' env db))"
    by (intro withdraw_unit_nonnegative) simp_all
next
  assume "balances_nonnegative db \<and>
          (\<forall>k d. balances_nonnegative d \<longrightarrow> balances_nonnegative (concurrent (envs k) d))"
  then show "balances_nonnegative
               (fst (fst (snd (withdraw mw i dto performedBy ip' userAgent' envs db))))"
    by (intro withdraw_nonnegative) simp_all
qed

theorem C1_withdraw_insufficient_funds_witness:
  "withdraw_unit False ''wallet-123'' (amount_dto 20000000 None) ''user-123'' None None quiet store =
     (Inl (BadRequestException ''Insufficient funds. Available balance: 1000 NGN''), store) \<and>
   withdraw False ''wallet-123'' (amount_dto 20000000 None) ''user-123'' None None (\<lambda>k. quiet) store =
     (Inl (BadRequestException ''Insufficient funds. Available balance: 1000 NGN''), (store, 1), []) \<and>
   balances_nonnegative store \<and>
   balances_nonnegative
     (snd (withdraw_unit False ''wallet-123'' (amount_dto 20000000 None) ''user-123'' None None quiet store)) \<and>
   balances_nonnegative
     (fst (fst (snd (withdraw False ''wallet-123'' (amount_dto 20000000 None) ''user-123'' None None
                       (\<lambda>k. quiet) store))))"
proof -
  have f: "wallet_findUnique False store ''wallet-123'' = Some wallet123"
    by (simp add: wallet_findUnique_def store_def wallet123_def)
  have d: "deletedAt wallet123 = None" by (simp add: wallet123_def)
  have b: "balance wallet123 < dto_amount (amount_dto 20000000 None)"
    by (simp add: wallet123_def amount_dto_def)
  have n: "balances_nonnegative store"
    by (simp add: balances_nonnegative_def store_def wallet123_def wallet456_def wallet789_def)
  have q: "concurrent quiet = (\<lambda>db. db)" by (simp add: quiet_def)
  have m: "InsufficientFunds wallet123 =
           BadRequestException ''Insufficient funds. Available balance: 1000 NGN''"
    by (simp add: InsufficientFunds_def wallet123_def toString_simps)
  note C = C1_withdraw_insufficient_funds[of False store "''wallet-123''" wallet123
        "amount_dto 20000000 None" "''user-123''" None None quiet "\<lambda>k. quiet"]
  from C f d b have 1:
    "withdraw_unit False ''wallet-123'' (amount_dto 20000000 None) ''user-123'' None None quiet store =
       (Inl (InsufficientFunds wallet123), store)"
    and 2: "withdraw False ''wallet-123'' (amount_dto 20000000 None) ''user-123'' None None
              (\<lambda>k. quiet) store = (Inl (InsufficientFunds wallet123), (store, 1), [])"
    by blast+
  from C n q have 3: "balances_nonnegative
     (snd (withdraw_unit False ''wallet-123'' (amount_dto 20000000 None) ''user-123'' None None quiet store))"
    and 4: "balances_nonnegative
     (fst (fst (snd (withdraw False ''wallet-123'' (amount_dto 20000000 None) ''user-123'' None None
                       (\<lambda>k. quiet) store))))"
    by simp_all
  from 1 2 3 4 n show ?thesis unfolding m by (intro conjI)
qed

subsection \<open>The retry wrapper with three attempts\<close>

lemma executeWithRetry_chain:
  fixes operation :: "'s \<Rightarrow> (exn + 'a) \<times> 's"
  assumes 1: "operation s = (Inl e1, s1)" "is_lock_conflict e1"
  shows "operation s1 = (Inr v, s2) \<Longrightarrow>
           executeWithRetry operation MAX_RETRIES s = (Inr v, s2, [20])"
    and "operation s1 = (Inl e, s2) \<Longrightarrow> \<not> is_lock_conflict e \<Longrightarrow>
           executeWithRetry operation MAX_RETRIES s = (Inl e, s2, [20])"
    and "operation s1 = (Inl e2, s2) \<Longrightarrow> is_lock_conflict e2 \<Longrightarrow> operation s2 = (Inr v, s3) \<Longrightarrow>
           executeWithRetry operation MAX_RETRIES s = (Inr v, s3, [20, 40])"
    and "operation s1 = (Inl e2, s2) \<Longrightarrow> is_lock_conflict e2 \<Longrightarrow> operation s2 = (Inl e, s3) \<Longrightarrow>
         \<not> is_lock_conflict e \<Longrightarrow>
           executeWithRetry operation MAX_RETRIES s = (Inl e, s3, [20, 40])"
    and "operation s1 = (Inl e2, s2) \<Longrightarrow> is_lock_conflict e2 \<Longrightarrow> operation s2 = (Inl e3, s3) \<Longrightarrow>
         is_lock_conflict e3 \<Longrightarrow>
           executeWithRetry operation MAX_RETRIES s = (Inl HighContention, s3, [20, 40, 80])"
  using 1
  by (simp_all add: executeWithRetry_def MAX_RETRIES_def retry_loop_conflict retry_loop_success
        retry_loop_error retry_loop_exhausted)

lemma executeWithRetry_count:
  "snd (fst (snd (executeWithRetry (counted operation) MAX_RETRIES (s, 0)))) \<le> 3"
proof -
  obtain s' n' where r: "fst (snd (retry_loop (counted operation) MAX_RETRIES 1 (s, 0) [])) = (s', n')"
    by (cases "fst (snd (retry_loop (counted operation) MAX_RETRIES 1 (s, 0) []))")
  from retry_loop_counted[OF r] have "n' \<le> 3" by (simp add: MAX_RETRIES_def)
  with r show ?thesis by (simp add: executeWithRetry_def)
qed

lemma executeWithRetry_backoff:
  "\<exists>m\<le>3. snd (snd (executeWithRetry operation MAX_RETRIES s)) = take m [20, 40, 80]"
proof -
  from retry_loop_slept[of MAX_RETRIES 1 operation s "[]"]
  obtain m where m: "m \<le> 3"
    and sl: "snd (snd (retry_loop operation MAX_RETRIES 1 s [])) =
             map (\<lambda>a. 2 ^ a * 10) [1 ..< 1 + m]"
    by (auto simp add: MAX_RETRIES_def)
  from m have "m = 0 \<or> m = 1 \<or> m = 2 \<or> m = 3" by arith
  then have "map (\<lambda>a. 2 ^ a * 10) [1 ..< 1 + m] = take m [20, 40, 80::nat]"
    by (auto simp add: upt_rec[of 1] upt_rec[of 2] upt_rec[of 3] numeral_2_eq_2 numeral_3_eq_3)
  with m sl show ?thesis by (auto simp add: executeWithRetry_def)
qed

lemma retry_loop_units:
  "(\<And>st r st'. operation st = (r, st') \<Longrightarrow> snd st' = Suc (snd st)) \<Longrightarrow>
   snd st \<le> snd (fst (snd (retry_loop operation retries attempt st slept))) \<and>
   snd (fst (snd (retry_loop operation retries attempt st slept))) \<le> snd st + (Suc retries - attempt)"
proof (induction operation retries attempt st slept rule: retry_loop.induct)
  case (1 operation retries attempt st slept)
  show ?case
  proof (cases "attempt \<le> retries")
    case False
    then show ?thesis by (simp add: retry_loop_exhausted)
  next
    case True
    obtain r st1 where op: "operation st = (r, st1)" by (cases "operation st")
    with "1.prems" have n1: "snd st1 = Suc (snd st)" by blast
    show ?thesis
    proof (cases r)
      case (Inr v)
      with True op n1 show ?thesis by (auto simp add: retry_loop_success)
    next
      case (Inl e')
      show ?thesis
      proof (cases "is_lock_conflict e'")
        case False
        with True op n1 Inl show ?thesis by (auto simp add: retry_loop_error)
      next
        case c: True
        have "snd st1 \<le> snd (fst (snd (retry_loop operation retries (attempt + 1) st1
                                      (slept @ [2 ^ attempt * 10])))) \<and>
              snd (fst (snd (retry_loop operation retries (attempt + 1) st1
                               (slept @ [2 ^ attempt * 10]))))
              \<le> snd st1 + (Suc retries - (attempt + 1))"
          by (rule "1.IH"[OF True op[symmetric] Inl c]) (rule "1.prems")
        with True op Inl c n1 show ?thesis by (auto simp add: retry_loop_conflict)
      qed
    qed
  qed
qed

lemma attempts_units:
  "snd (fst (snd (executeWithRetry (attempts envs unit) MAX_RETRIES (db, 0)))) \<le> 3"
proof -
  have "snd (fst (snd (retry_loop (attempts envs unit) MAX_RETRIES 1 (db, 0) [])))
        \<le> snd (db, 0::nat) + (Suc MAX_RETRIES - 1)"
    by (rule retry_loop_units[THEN conjunct2])
       (auto simp add: attempts_def split: prod.splits)
  then show ?thesis by (simp add: executeWithRetry_def MAX_RETRIES_def)
qed

text \<open>
  C3. \<^verbatim>\<open>executeWithRetry\<close> with the default \<open>MAX_RETRIES = 3\<close>, and so \<^verbatim>\<open>fund\<close> and
  \<^verbatim>\<open>withdraw\<close>, run the operation at most three times. The delays slept are an initial
  part of 20, 40, 80 ms, that is \<open>10 * 2 ^ attempt\<close> after the conflict of each attempt.
  No lock conflict is ever the result: the conflict of the unit is one, the error raised
  after the last attempt is not. A first success, after none, one or two conflicts, is
  returned as it is; an error that is not a lock conflict is returned as it is by the
  attempt that raised it; three conflicts end in the high-contention error.
\<close>

theorem C3_executeWithRetry:
  fixes operation :: "'s \<Rightarrow> (exn + 'a) \<times> 's"
  shows
  "snd (fst (snd (executeWithRetry (counted operation) MAX_RETRIES (s, 0)))) \<le> 3 \<and>
   snd (fst (snd (fund mw i dto performedBy ip' userAgent' envs db))) \<le> 3 \<and>
   snd (fst (snd (withdraw mw i dto performedBy ip' userAgent' envs db))) \<le> 3 \<and>
   (\<exists>m\<le>3. snd (snd (executeWithRetry operation MAX_RETRIES s)) = take m [20, 40, 80]) \<and>
   (\<forall>e. fst (executeWithRetry operation MAX_RETRIES s) = Inl e \<longrightarrow> \<not> is_lock_conflict e) \<and>
   is_lock_conflict ConcurrentModification \<and> \<not> is_lock_conflict HighContention \<and>
   (operation s = (Inr v, s1) \<longrightarrow>
      executeWithRetry operation MAX_RETRIES s = (Inr v, s1, [])) \<and>
   (operation s = (Inl e, s1) \<and> \<not> is_lock_conflict e \<longrightarrow>
      executeWithRetry operation MAX_RETRIES s = (Inl e, s1, [])) \<and>
   (operation s = (Inl e1, s1) \<and> is_lock_conflict e1 \<longrightarrow>
      (operation s1 = (Inr v, s2) \<longrightarrow>
         executeWithRetry operation MAX_RETRIES s = (Inr v, s2, [20])) \<and>
      (operation s1 = (Inl e, s2) \<and> \<not> is_lock_conflict e \<longrightarrow>
         executeWithRetry operation MAX_RETRIES s = (Inl e, s2, [20])) \<and>
      (operation s1 = (Inl e2, s2) \<and> is_lock_conflict e2 \<longrightarrow>
         (operation s2 = (Inr v, s3) \<longrightarrow>
            executeWithRetry operation MAX_RETRIES s = (Inr v, s3, [20, 40])) \<and>
         (operation s2 = (Inl e, s3) \<and> \<not> is_lock_conflict e \<longrightarrow>
            executeWithRetry operation MAX_RETRIES s = (Inl e, s3, [20, 40])) \<and>
         (operation s2 = (Inl e3, s3) \<and> is_lock_conflict e3 \<longrightarrow>
            executeWithRetry operation MAX_RETRIES s = (Inl HighContention, s3, [20, 40, 80]))))"
proof -
  have count: "snd (fst (snd (executeWithRetry (counted operation) MAX_RETRIES (s, 0)))) \<le> 3"
    by (rule executeWithRetry_count)
  have units: "snd (fst (snd (fund mw i dto performedBy ip' userAgent' envs db))) \<le> 3"
    "snd (fst (snd (withdraw mw i dto performedBy ip' userAgent' envs db))) \<le> 3"
    unfolding fund_def withdraw_def by (rule attempts_units)+
  have backoff: "\<exists>m\<le>3. snd (snd (executeWithRetry operation MAX_RETRIES s)) = take m [20, 40, 80]"
    by (rule executeWithRetry_backoff)
  have leak: "\<forall>e. fst (executeWithRetry operation MAX_RETRIES s) = Inl e \<longrightarrow> \<not> is_lock_conflict e"
    unfolding executeWithRetry_def by (blast dest: retry_loop_no_leak)
  note first = executeWithRetry_first_success[of operation s v s1]
    executeWithRetry_first_error[of operation s e s1]
  note later = executeWithRetry_chain[of operation s e1 s1]
  show ?thesis
    by (intro conjI impI count units backoff leak lock_conflict_ConcurrentModification
          lock_conflict_HighContention; (elim conjE)?; (rule first later; assumption)?)
qed

theorem C3_executeWithRetry_witness:
  "executeWithRetry (\<lambda>n::nat. if n < 2 then (Inl ConcurrentModification, Suc n) else (Inr n, Suc n))
     MAX_RETRIES 0 = (Inr 2, 3, [20, 40]) \<and>
   executeWithRetry (\<lambda>n::nat. (Inl ConcurrentModification :: exn + nat, Suc n))
     MAX_RETRIES 0 = (Inl HighContention, 3, [20, 40, 80]) \<and>
   executeWithRetry (\<lambda>n::nat. (Inl (NotFoundException ''Wallet not found'') :: exn + nat, Suc n))
     MAX_RETRIES 0 = (Inl (NotFoundException ''Wallet not found''), 1, [])"
proof -
  note c = lock_conflict_ConcurrentModification
  have 1: "executeWithRetry
             (\<lambda>n::nat. if n < 2 then (Inl ConcurrentModification, Suc n) else (Inr n, Suc n))
             MAX_RETRIES 0 = (Inr 2, 3, [20, 40])"
    using C3_executeWithRetry[where
        operation = "\<lambda>n::nat. if n < 2 then (Inl ConcurrentModification, Suc n) else (Inr n, Suc n)"
        and s = 0 and ?e1.0 = ConcurrentModification and ?s1.0 = 1
        and ?e2.0 = ConcurrentModification and ?s2.0 = 2 and v = 2 and ?s3.0 = 3] c
    by simp
  have 2: "executeWithRetry (\<lambda>n::nat. (Inl ConcurrentModification :: exn + nat, Suc n))
             MAX_RETRIES 0 = (Inl HighContention, 3, [20, 40, 80])"
    using C3_executeWithRetry[where
        operation = "\<lambda>n::nat. (Inl ConcurrentModification :: exn + nat, Suc n)"
        and s = 0 and ?e1.0 = ConcurrentModification and ?s1.0 = 1
        and ?e2.0 = ConcurrentModification and ?s2.0 = 2
        and ?e3.0 = ConcurrentModification and ?s3.0 = 3] c
    by simp
  have 3: "executeWithRetry
             (\<lambda>n::nat. (Inl (NotFoundException ''Wallet not found'') :: exn + nat, Suc n))
             MAX_RETRIES 0 = (Inl (NotFoundException ''Wallet not found''), 1, [])"
    using C3_executeWithRetry[where
        operation = "\<lambda>n::nat. (Inl (NotFoundException ''Wallet not found'') :: exn + nat, Suc n)"
        and s = 0 and e = "NotFoundException ''Wallet not found''" and ?s1.0 = 1]
    by simp
  from 1 2 3 show ?thesis by (intro conjI)
qed

subsection \<open>The outcomes of one atomic unit\<close>

lemma findUnique_row:
  "wallet_findUnique mw db i = Some wallet \<Longrightarrow> wallet \<in> set (wallets db) \<and> wallet_id wallet = i"
  by (auto simp add: wallet_findUnique_def find_Some_iff)

lemma findUnique_hit:
  "wallet_findUnique mw db i = Some wallet \<Longrightarrow>
   list_ex (\<lambda>w. wallet_id w = i \<and> version w = version wallet) (wallets db)"
  by (auto simp add: list_ex_iff dest: findUnique_row)

lemma updateMany_count_zero:
  "fst (wallet_updateMany db i v b) = 0 \<longleftrightarrow>
   \<not> list_ex (\<lambda>w. wallet_id w = i \<and> version w = v) (wallets db)"
  by (auto simp add: wallet_updateMany_count list_ex_iff filter_empty_conv)

lemma updateMany_ids:
  "map wallet_id (wallets (snd (wallet_updateMany db i v b))) = map wallet_id (wallets db)"
  by (simp add: wallet_updateMany_wallets)

lemma updateMany_frame:
  "transactions (snd (wallet_updateMany db i v b)) = transactions db"
  "auditLogs (snd (wallet_updateMany db i v b)) = auditLogs db"
  by (simp_all add: wallet_updateMany_wallets)

lemma hit_id:
  "list_ex (\<lambda>w. wallet_id w = i \<and> version w = v) (wallets db) \<Longrightarrow>
   i \<in> set (map wallet_id (wallets db))"
  by (auto simp add: list_ex_iff)

text \<open>The outcomes of the atomic unit of \<^verbatim>\<open>fund\<close>, branch by branch.\<close>

lemma fund_unit_not_found:
  "wallet_findUnique mw db i = None \<Longrightarrow>
   fund_unit mw i dto performedBy ip' userAgent' env db =
     (Inl (NotFoundException ''Wallet not found''), db)"
  by (simp add: fund_unit_def)

lemma fund_unit_deleted:
  "wallet_findUnique mw db i = Some wallet \<Longrightarrow> deletedAt wallet \<noteq> None \<Longrightarrow>
   fund_unit mw i dto performedBy ip' userAgent' env db =
     (Inl (BadRequestException ''Wallet has been deleted''), db)"
  by (simp add: fund_unit_def)

lemma fund_unit_conflict:
  "wallet_findUnique mw db i = Some wallet \<Longrightarrow> deletedAt wallet = None \<Longrightarrow>
   \<not> list_ex (\<lambda>w. wallet_id w = i \<and> version w = version wallet) (wallets (concurrent env db)) \<Longrightarrow>
   fund_unit mw i dto performedBy ip' userAgent' env db =
     (Inl ConcurrentModification, concurrent env db)"
  by (simp add: fund_unit_def split_beta updateMany_count_zero)

lemma fund_unit_duplicate:
  "wallet_findUnique mw db i = Some wallet \<Longrightarrow> deletedAt wallet = None \<Longrightarrow>
   list_ex (\<lambda>w. wallet_id w = i \<and> version w = version wallet) (wallets (concurrent env db)) \<Longrightarrow>
   reference_or_generated env (dto_reference dto)
     \<in> set (map reference (transactions (concurrent env db))) \<Longrightarrow>
   fund_unit mw i dto performedBy ip' userAgent' env db =
     (Inl (PrismaClientKnownRequestError ''P2002''), concurrent env db)"
  by (simp add: fund_unit_def split_beta updateMany_count_zero TransactionsService_create_def
        updateMany_frame)

lemma fund_unit_audit_failure:
  "wallet_findUnique mw db i = Some wallet \<Longrightarrow> deletedAt wallet = None \<Longrightarrow>
   list_ex (\<lambda>w. wallet_id w = i \<and> version w = version wallet) (wallets (concurrent env db)) \<Longrightarrow>
   reference_or_generated env (dto_reference dto)
     \<notin> set (map reference (transactions (concurrent env db))) \<Longrightarrow>
   audit_failure env = Some error \<Longrightarrow>
   fund_unit mw i dto performedBy ip' userAgent' env db = (Inl error, concurrent env db)"
  by (simp add: fund_unit_def split_beta updateMany_count_zero TransactionsService_create_def
        updateMany_frame updateMany_ids hit_id[simplified] AuditService_log_def)

lemma fund_unit_commit:
  "wallet_findUnique mw db i = Some wallet \<Longrightarrow> deletedAt wallet = None \<Longrightarrow>
   list_ex (\<lambda>w. wallet_id w = i \<and> version w = version wallet) (wallets (concurrent env db)) \<Longrightarrow>
   reference_or_generated env (dto_reference dto)
     \<notin> set (map reference (transactions (concurrent env db))) \<Longrightarrow>
   audit_failure env = None \<Longrightarrow>
   fund_unit mw i dto performedBy ip' userAgent' env db =
     (let tx3 = (snd (wallet_updateMany (concurrent env db) i (version wallet)
                        (balance wallet + dto_amount dto)))
                \<lparr>transactions := transactions (concurrent env db) @
                   [\<lparr>walletId = i, txn_type = CREDIT, amount = dto_amount dto,
                     balanceBefore = balance wallet,
                     balanceAfter = balance wallet + dto_amount dto,
                     reference = reference_or_generated env (dto_reference dto),
                     description = dto_description dto, metadata = dto_metadata dto,
                     performedByUserId = performedBy\<rparr>],
                 auditLogs := auditLogs (concurrent env db) @
                   [\<lparr>actorUserId = Some performedBy, entity = ''Wallet'', entityId = i,
                     action = UPDATE,
                     changes = Some [(''operation'', ''FUND''),
                                     (''amount'', toString (dto_amount dto)),
                                     (''balanceBefore'', toString (balance wallet)),
                                     (''balanceAfter'', toString (balance wallet + dto_amount dto)),
                                     (''reference'', reference_or_generated env (dto_reference dto))],
                     ip = ip', userAgent = userAgent'\<rparr>]\<rparr>
      in (Inr (wallet_findUnique mw tx3 i), tx3))"
  by (simp add: fund_unit_def split_beta updateMany_count_zero TransactionsService_create_def
        updateMany_frame updateMany_ids hit_id[simplified] AuditService_log_def Let_def
        wallet_findUnique_def)

text \<open>The outcomes of the atomic unit of \<^verbatim>\<open>withdraw\<close>, branch by branch.\<close>

lemma withdraw_unit_not_found:
  "wallet_findUnique mw db i = None \<Longrightarrow>
   withdraw_unit mw i dto performedBy ip' userAgent' env db =
     (Inl (NotFoundException ''Wallet not found''), db)"
  by (simp add: withdraw_unit_def)

lemma withdraw_unit_deleted:
  "wallet_findUnique mw db i = Some wallet \<Longrightarrow> deletedAt wallet \<noteq> None \<Longrightarrow>
   withdraw_unit mw i dto performedBy ip' userAgent' env db =
     (Inl (BadRequestException ''Wallet has been deleted''), db)"
  by (simp add: withdraw_unit_def)

lemma withdraw_unit_conflict:
  "wallet_findUnique mw db i = Some wallet \<Longrightarrow> deletedAt wallet = None \<Longrightarrow>
   dto_amount dto \<le> balance wallet \<Longrightarrow>
   \<not> list_ex (\<lambda>w. wallet_id w = i \<and> version w = version wallet) (wallets (concurrent env db)) \<Longrightarrow>
   withdraw_unit mw i dto performedBy ip' userAgent' env db =
     (Inl ConcurrentModification, concurrent env db)"
  by (simp add: withdraw_unit_def split_beta updateMany_count_zero)

lemma withdraw_unit_duplicate:
  "wallet_findUnique mw db i = Some wallet \<Longrightarrow> deletedAt wallet = None \<Longrightarrow>
   dto_amount dto \<le> balance wallet \<Longrightarrow>
   list_ex (\<lambda>w. wallet_id w = i \<and> version w = version wallet) (wallets (concurrent env db)) \<Longrightarrow>
   reference_or_generated env (dto_reference dto)
     \<in> set (map reference (transactions (concurrent env db))) \<Longrightarrow>
   withdraw_unit mw i dto performedBy ip' userAgent' env db =
     (Inl (PrismaClientKnownRequestError ''P2002''), concurrent env db)"
  by (simp add: withdraw_unit_def split_beta updateMany_count_zero TransactionsService_create_def
        updateMany_frame)

lemma withdraw_unit_audit_failure:
  "wallet_findUnique mw db i = Some wallet \<Longrightarrow> deletedAt wallet = None \<Longrightarrow>
   dto_amount dto \<le> balance wallet \<Longrightarrow>
   list_ex (\<lambda>w. wallet_id w = i \<and> version w = version wallet) (wallets (concurrent env db)) \<Longrightarrow>
   reference_or_generated env (dto_reference dto)
     \<notin> set (map reference (transactions (concurrent env db))) \<Longrightarrow>
   audit_failure env = Some error \<Longrightarrow>
   withdraw_unit mw i dto performedBy ip' userAgent' env db = (Inl error, concurrent env db)"
  by (simp add: withdraw_unit_def split_beta updateMany_count_zero TransactionsService_create_def
        updateMany_frame updateMany_ids hit_id[simplified] AuditService_log_def)

lemma withdraw_unit_commit:
  "wallet_findUnique mw db i = Some wallet \<Longrightarrow> deletedAt wallet = None \<Longrightarrow>
   dto_amount dto \<le> balance wallet \<Longrightarrow>
   list_ex (\<lambda>w. wallet_id w = i \<and> version w = version wallet) (wallets (concurrent env db)) \<Longrightarrow>
   reference_or_generated env (dto_reference dto)
     \<notin> set (map reference (transactions (concurrent env db))) \<Longrightarrow>
   audit_failure env = None \<Longrightarrow>
   withdraw_unit mw i dto performedBy ip' userAgent' env db =
     (let tx3 = (snd (wallet_updateMany (concurrent env db) i (version wallet)
                        (balance wallet - dto_amount dto)))
                \<lparr>transactions := transactions (concurrent env db) @
                   [\<lparr>walletId = i, txn_type = DEBIT, amount = dto_amount dto,
                     balanceBefore = balance wallet,
                     balanceAfter = balance wallet - dto_amount dto,
                     reference = reference_or_generated env (dto_reference dto),
                     description = dto_description dto, metadata = dto_metadata dto,
                     performedByUserId = performedBy\<rparr>],
                 auditLogs := auditLogs (concurrent env db) @
                   [\<lparr>actorUserId = Some performedBy, entity = ''Wallet'', entityId = i,
                     action = UPDATE,
                     changes = Some [(''operation'', ''WITHDRAW''),
                                     (''amount'', toString (dto_amount dto)),
                                     (''balanceBefore'', toString (balance wallet)),
                                     (''balanceAfter'', toString (balance wallet - dto_amount dto)),
                                     (''reference'', reference_or_generated env (dto_reference dto))],
                     ip = ip', userAgent = userAgent'\<rparr>]\<rparr>
      in (Inr (wallet_findUnique mw tx3 i), tx3))"
  by (simp add: withdraw_unit_def split_beta updateMany_count_zero TransactionsService_create_def
        updateMany_frame updateMany_ids hit_id[simplified] AuditService_log_def Let_def
        wallet_findUnique_def)

subsection \<open>What a committed unit has done\<close>

lemma fund_unit_InrD:
  assumes "fund_unit mw i dto performedBy ip' userAgent' env db = (Inr r, db')"
  shows "\<exists>wallet. wallet_findUnique mw db i = Some wallet \<and> deletedAt wallet = None \<and>
           list_ex (\<lambda>w. wallet_id w = i \<and> version w = version wallet) (wallets (concurrent env db)) \<and>
           reference_or_generated env (dto_reference dto)
             \<notin> set (map reference (transactions (concurrent env db))) \<and>
           audit_failure env = None"
proof (cases "wallet_findUnique mw db i")
  case None
  with assms show ?thesis by (simp add: fund_unit_not_found)
next
  case (Some wallet)
  have d: "deletedAt wallet = None"
    using assms Some by (cases "deletedAt wallet") (simp_all add: fund_unit_deleted)
  have h: "list_ex (\<lambda>w. wallet_id w = i \<and> version w = version wallet) (wallets (concurrent env db))"
    using assms fund_unit_conflict[OF Some d] by fastforce
  have f: "reference_or_generated env (dto_reference dto)
             \<notin> set (map reference (transactions (concurrent env db)))"
    using assms fund_unit_duplicate[OF Some d h] by fastforce
  have a: "audit_failure env = None"
    using assms fund_unit_audit_failure[OF Some d h f]
    by (cases "audit_failure env") fastforce+
  from Some d h f a show ?thesis by blast
qed

lemma withdraw_unit_InrD:
  assumes "withdraw_unit mw i dto performedBy ip' userAgent' env db = (Inr r, db')"
  shows "\<exists>wallet. wallet_findUnique mw db i = Some wallet \<and> deletedAt wallet = None \<and>
           dto_amount dto \<le> balance wallet \<and>
           list_ex (\<lambda>w. wallet_id w = i \<and> version w = version wallet) (wallets (concurrent env db)) \<and>
           reference_or_generated env (dto_reference dto)
             \<notin> set (map reference (transactions (concurrent env db))) \<and>
           audit_failure env = None"
proof (cases "wallet_findUnique mw db i")
  case None
  with assms show ?thesis by (simp add: withdraw_unit_not_found)
next
  case (Some wallet)
  have d: "deletedAt wallet = None"
    using assms Some by (cases "deletedAt wallet") (simp_all add: withdraw_unit_deleted)
  have s: "dto_amount dto \<le> balance wallet"
    using assms withdraw_unit_insufficient[OF Some d, of dto performedBy ip' userAgent' env]
    by (cases "balance wallet < dto_amount dto") auto
  have h: "list_ex (\<lambda>w. wallet_id w = i \<and> version w = version wallet) (wallets (concurrent env db))"
    using assms withdraw_unit_conflict[OF Some d s] by fastforce
  have f: "reference_or_generated env (dto_reference dto)
             \<notin> set (map reference (transactions (concurrent env db)))"
    using assms withdraw_unit_duplicate[OF Some d s h] by fastforce
  have a: "audit_failure env = None"
    using assms withdraw_unit_audit_failure[OF Some d s h f]
    by (cases "audit_failure env") fastforce+
  from Some d s h f a show ?thesis by blast
qed

lemma find_map_update:
  "find P xs = Some w \<Longrightarrow> (\<And>x. P (f x) = P x) \<Longrightarrow> find P (map f xs) = Some (f w)"
  by (induction xs) (auto split: if_splits)

lemma findUnique_after_update:
  assumes "wallet_findUnique mw db i = Some wallet"
  shows "wallet_findUnique mw
           ((snd (wallet_updateMany db i (version wallet) b))\<lparr>transactions := t, auditLogs := a\<rparr>) i =
         Some (wallet\<lparr>balance := b, version := version wallet + 1\<rparr>)"
proof -
  let ?P = "\<lambda>w. wallet_id w = i \<and> (if mw then deletedAt w = None else True)"
  let ?f = "\<lambda>w. if wallet_id w = i \<and> version w = version wallet
                 then w\<lparr>balance := b, version := version w + 1\<rparr> else w"
  from assms have "find ?P (wallets db) = Some wallet" by (simp add: wallet_findUnique_def)
  then have "find ?P (map ?f (wallets db)) = Some (?f wallet)"
    by (rule find_map_update) simp
  moreover from assms have "wallet_id wallet = i" by (simp add: findUnique_row)
  ultimately show ?thesis by (simp add: wallet_findUnique_def wallet_updateMany_wallets)
qed

lemma list_ex_map_never: "(\<And>x. \<not> P (f x)) \<Longrightarrow> \<not> list_ex P (map f xs)"
  by (induction xs) simp_all

lemma updateMany_blocks:
  "\<not> list_ex (\<lambda>w. wallet_id w = i \<and> version w = v)
        (wallets ((snd (wallet_updateMany db i v b))\<lparr>transactions := t, auditLogs := a\<rparr>))"
proof -
  have "\<not> list_ex (\<lambda>w. wallet_id w = i \<and> version w = v)
          (map (\<lambda>w. if wallet_id w = i \<and> version w = v
                     then w\<lparr>balance := b, version := version w + 1\<rparr> else w) (wallets db))"
    by (rule list_ex_map_never) simp
  then show ?thesis by (simp add: wallet_updateMany_wallets)
qed

lemma fund_unit_Inr_store:
  assumes "fund_unit mw i dto performedBy ip' userAgent' env db = (Inr r, db')"
  shows "\<exists>wallet t a. wallet_findUnique mw db i = Some wallet \<and> deletedAt wallet = None \<and>
           list_ex (\<lambda>w. wallet_id w = i \<and> version w = version wallet) (wallets (concurrent env db)) \<and>
           db' = (snd (wallet_updateMany (concurrent env db) i (version wallet)
                        (balance wallet + dto_amount dto)))\<lparr>transactions := t, auditLogs := a\<rparr> \<and>
           r = wallet_findUnique mw db' i"
proof -
  from fund_unit_InrD[OF assms] obtain wallet where
    w: "wallet_findUnique mw db i = Some wallet" "deletedAt wallet = None"
       "list_ex (\<lambda>w. wallet_id w = i \<and> version w = version wallet) (wallets (concurrent env db))"
       "reference_or_generated env (dto_reference dto)
          \<notin> set (map reference (transactions (concurrent env db)))"
       "audit_failure env = None"
    by blast
  from fund_unit_commit[OF w, of performedBy ip' userAgent'] assms w(1,2,3)
  show ?thesis by (simp add: Let_def) blast
qed

lemma withdraw_unit_Inr_store:
  assumes "withdraw_unit mw i dto performedBy ip' userAgent' env db = (Inr r, db')"
  shows "\<exists>wallet t a. wallet_findUnique mw db i = Some wallet \<and> deletedAt wallet = None \<and>
           dto_amount dto \<le> balance wallet \<and>
           list_ex (\<lambda>w. wallet_id w = i \<and> version w = version wallet) (wallets (concurrent env db)) \<and>
           db' = (snd (wallet_updateMany (concurrent env db) i (version wallet)
                        (balance wallet - dto_amount dto)))\<lparr>transactions := t, auditLogs := a\<rparr> \<and>
           r = wallet_findUnique mw db' i"
proof -
  from withdraw_unit_InrD[OF assms] obtain wallet where
    w: "wallet_findUnique mw db i = Some wallet" "deletedAt wallet = None"
       "dto_amount dto \<le> balance wallet"
       "list_ex (\<lambda>w. wallet_id w = i \<and> version w = version wallet) (wallets (concurrent env db))"
       "reference_or_generated env (dto_reference dto)
          \<notin> set (map reference (transactions (concurrent env db)))"
       "audit_failure env = None"
    by blast
  from withdraw_unit_commit[OF w, of performedBy ip' userAgent'] assms w(1,2,3,4)
  show ?thesis by (simp add: Let_def) blast
qed

subsection \<open>The version check\<close>

text \<open>
  C2. A unit of \<^verbatim>\<open>fund\<close> or \<^verbatim>\<open>withdraw\<close> that commits has found a row whose id and
  version are the ones it read, and the wallets of the new store are those the other
  writers left with exactly the rows of that id and version rewritten: the new balance,
  and the version plus one. With nobody else writing, the wallet returned is the one read
  with the new balance and its version plus one. When no row has the version read, the
  unit fails with the concurrent-modification conflict and the store is the one the other
  writers left. So two units that read the same state cannot both commit: once one has
  committed, the other's conditional write matches no row.
\<close>

theorem C2_version_check:
  "(fund_unit mw i dto performedBy ip' userAgent' env db = (Inr r, db') \<longrightarrow>
      (\<exists>wallet. wallet_findUnique mw db i = Some wallet \<and>
         list_ex (\<lambda>w. wallet_id w = i \<and> version w = version wallet) (wallets (concurrent env db)) \<and>
         wallets db' =
           map (\<lambda>w. if wallet_id w = i \<and> version w = version wallet
                     then w\<lparr>balance := balance wallet + dto_amount dto, version := version w + 1\<rparr>
                     else w) (wallets (concurrent env db)))) \<and>
   (withdraw_unit mw i dto performedBy ip' userAgent' env db = (Inr r, db') \<longrightarrow>
      (\<exists>wallet. wallet_findUnique mw db i = Some wallet \<and>
         list_ex (\<lambda>w. wallet_id w = i \<and> version w = version wallet) (wallets (concurrent env db)) \<and>
         wallets db' =
           map (\<lambda>w. if wallet_id w = i \<and> version w = version wallet
                     then w\<lparr>balance := balance wallet - dto_amount dto, version := version w + 1\<rparr>
                     else w) (wallets (concurrent env db)))) \<and>
   (wallet_findUnique mw db i = Some wallet \<and> concurrent env db = db \<longrightarrow>
      (fund_unit mw i dto performedBy ip' userAgent' env db = (Inr r, db') \<longrightarrow>
         r = Some (wallet\<lparr>balance := balance wallet + dto_amount dto,
                          version := version wallet + 1\<rparr>)) \<and>
      (withdraw_unit mw i dto performedBy ip' userAgent' env db = (Inr r, db') \<longrightarrow>
         r = Some (wallet\<lparr>balance := balance wallet - dto_amount dto,
                          version := version wallet + 1\<rparr>))) \<and>
   (wallet_findUnique mw db i = Some wallet \<and> deletedAt wallet = None \<and>
    \<not> list_ex (\<lambda>w. wallet_id w = i \<and> version w = version wallet) (wallets (concurrent env db)) \<longrightarrow>
      fund_unit mw i dto performedBy ip' userAgent' env db =
        (Inl ConcurrentModification, concurrent env db) \<and>
      (dto_amount dto \<le> balance wallet \<longrightarrow>
         withdraw_unit mw i dto performedBy ip' userAgent' env db =
           (Inl ConcurrentModification, concurrent env db))) \<and>
   (wallet_findUnique mw db i = Some wallet \<and>
    (fund_unit mw i dto performedBy ip' userAgent' env db = (Inr r, db') \<or>
     withdraw_unit mw i dto performedBy ip' userAgent' env db = (Inr r, db')) \<and>
    concurrent env2 db = db' \<longrightarrow>
      fund_unit mw i dto2 performedBy2 ip2 userAgent2 env2 db = (Inl ConcurrentModification, db') \<and>
      withdraw_unit mw i dto2 performedBy2 ip2 userAgent2 env2 db =
        (if dto_amount dto2 \<le> balance wallet then (Inl ConcurrentModification, db')
         else (Inl (InsufficientFunds wallet), db)))"
proof (intro conjI impI)
  assume "fund_unit mw i dto performedBy ip' userAgent' env db = (Inr r, db')"
  from fund_unit_Inr_store[OF this]
  show "\<exists>wallet. wallet_findUnique mw db i = Some wallet \<and>
         list_ex (\<lambda>w. wallet_id w = i \<and> version w = version wallet) (wallets (concurrent env db)) \<and>
         wallets db' =
           map (\<lambda>w. if wallet_id w = i \<and> version w = version wallet
                     then w\<lparr>balance := balance wallet + dto_amount dto, version := version w + 1\<rparr>
                     else w) (wallets (concurrent env db))"
    by (auto simp add: wallet_updateMany_wallets)
next
  assume "withdraw_unit mw i dto performedBy ip' userAgent' env db = (Inr r, db')"
  from withdraw_unit_Inr_store[OF this]
  show "\<exists>wallet. wallet_findUnique mw db i = Some wallet \<and>
         list_ex (\<lambda>w. wallet_id w = i \<and> version w = version wallet) (wallets (concurrent env db)) \<and>
         wallets db' =
           map (\<lambda>w. if wallet_id w = i \<and> version w = version wallet
                     then w\<lparr>balance := balance wallet - dto_amount dto, version := version w + 1\<rparr>
                     else w) (wallets (concurrent env db))"
    by (auto simp add: wallet_updateMany_wallets)
next
  assume a: "wallet_findUnique mw db i = Some wallet \<and> concurrent env db = db"
    and "fund_unit mw i dto performedBy ip' userAgent' env db = (Inr r, db')"
  from fund_unit_Inr_store[OF this(2)] a
  show "r = Some (wallet\<lparr>balance := balance wallet + dto_amount dto, version := version wallet + 1\<rparr>)"
    using findUnique_after_update[of mw db i wallet] by auto
next
  assume a: "wallet_findUnique mw db i = Some wallet \<and> concurrent env db = db"
    and "withdraw_unit mw i dto performedBy ip' userAgent' env db = (Inr r, db')"
  from withdraw_unit_Inr_store[OF this(2)] a
  show "r = Some (wallet\<lparr>balance := balance wallet - dto_amount dto, version := version wallet + 1\<rparr>)"
    using findUnique_after_update[of mw db i wallet] by auto
next
  assume "wallet_findUnique mw db i = Some wallet \<and> deletedAt wallet = None \<and>
    \<not> list_ex (\<lambda>w. wallet_id w = i \<and> version w = version wallet) (wallets (concurrent env db))"
  then show "fund_unit mw i dto performedBy ip' userAgent' env db =
        (Inl ConcurrentModification, concurrent env db)"
    by (simp add: fund_unit_conflict)
next
  assume "wallet_findUnique mw db i = Some wallet \<and> deletedAt wallet = None \<and>
    \<not> list_ex (\<lambda>w. wallet_id w = i \<and> version w = version wallet) (wallets (concurrent env db))"
    and "dto_amount dto \<le> balance wallet"
  then show "withdraw_unit mw i dto performedBy ip' userAgent' env db =
        (Inl ConcurrentModification, concurrent env db)"
    by (simp add: withdraw_unit_conflict)
next
  assume a: "wallet_findUnique mw db i = Some wallet \<and>
    (fund_unit mw i dto performedBy ip' userAgent' env db = (Inr r, db') \<or>
     withdraw_unit mw i dto performedBy ip' userAgent' env db = (Inr r, db')) \<and>
    concurrent env2 db = db'"
  then have w: "wallet_findUnique mw db i = Some wallet" and c: "concurrent env2 db = db'"
    by simp_all
  from a have "deletedAt wallet = None \<and>
      \<not> list_ex (\<lambda>w. wallet_id w = i \<and> version w = version wallet) (wallets db')"
    using fund_unit_Inr_store[of mw i dto performedBy ip' userAgent' env db r db']
      withdraw_unit_Inr_store[of mw i dto performedBy ip' userAgent' env db r db']
      updateMany_blocks[of i "version wallet"]
    by (elim conjE disjE) auto
  then have d: "deletedAt wallet = None"
    and b: "\<not> list_ex (\<lambda>w. wallet_id w = i \<and> version w = version wallet)
                (wallets (concurrent env2 db))"
    using c by simp_all
  show "fund_unit mw i dto2 performedBy2 ip2 userAgent2 env2 db = (Inl ConcurrentModification, db')"
    using fund_unit_conflict[OF w d b] c by simp
  show "withdraw_unit mw i dto2 performedBy2 ip2 userAgent2 env2 db =
        (if dto_amount dto2 \<le> balance wallet then (Inl ConcurrentModification, db')
         else (Inl (InsufficientFunds wallet), db))"
    using withdraw_unit_conflict[OF w d _ b] withdraw_unit_insufficient[OF w d] c by auto
qed

lemma store_wallet123: "wallet_findUnique mw store ''wallet-123'' = Some wallet123"
  by (simp add: wallet_findUnique_def store_def wallet123_def)

lemma store_wallet456: "wallet_findUnique mw store ''wallet-456'' = Some wallet456"
  by (simp add: wallet_findUnique_def store_def wallet123_def wallet456_def)

lemma store_wallet789: "wallet_findUnique mw store ''wallet-789'' = Some wallet789"
  by (simp add: wallet_findUnique_def store_def wallet123_def wallet456_def wallet789_def)

lemma quiet_simps:
  "concurrent quiet db = db" "audit_failure quiet = None"
  "generateTransactionReference quiet = ''TXN-MHK3T2Q9-9F1C2B7A''"
  by (simp_all add: quiet_def generateTransactionReference_def)

lemma store_references: "map reference (transactions store) = [''FUND-001'']"
  by (simp add: store_def fund001_def)

lemma racing_store:
  "\<not> list_ex (\<lambda>w. wallet_id w = ''wallet-123'' \<and> version w = version wallet123)
        (wallets (concurrent racing store))"
  by (simp add: racing_def quiet_def store_def wallet123_def wallet456_def wallet789_def)

theorem C2_version_check_witness:
  "fst (fund_unit False ''wallet-123'' (amount_dto 5000000 None) ''user-123'' None None quiet store) =
     Inr (Some (wallet123\<lparr>balance := 15000000, version := 2\<rparr>)) \<and>
   fund_unit False ''wallet-123'' (amount_dto 5000000 None) ''user-123'' None None racing store =
     (Inl ConcurrentModification, concurrent racing store) \<and>
   fund_unit False ''wallet-123'' (amount_dto 10000 None) ''user-456'' None None
     (quiet\<lparr>concurrent := (\<lambda>db. snd (fund_unit False ''wallet-123'' (amount_dto 5000000 None)
                                          ''user-123'' None None quiet store))\<rparr>) store =
     (Inl ConcurrentModification,
      snd (fund_unit False ''wallet-123'' (amount_dto 5000000 None) ''user-123'' None None quiet store))"
proof -
  let ?first = "fund_unit False ''wallet-123'' (amount_dto 5000000 None) ''user-123'' None None quiet store"
  let ?env2 = "quiet\<lparr>concurrent := (\<lambda>db. snd ?first)\<rparr>"
  have d: "deletedAt wallet123 = None" by (simp add: wallet123_def)
  have h: "list_ex (\<lambda>w. wallet_id w = ''wallet-123'' \<and> version w = version wallet123)
             (wallets (concurrent quiet store))"
    using findUnique_hit[OF store_wallet123] by (simp add: quiet_simps)
  have n: "reference_or_generated quiet (dto_reference (amount_dto 5000000 None))
             \<notin> set (map reference (transactions (concurrent quiet store)))"
    by (simp add: quiet_simps store_references reference_or_generated_def amount_dto_def)
  have "\<exists>r. ?first = (Inr r, snd ?first)"
    using fund_unit_commit[OF store_wallet123 d h n quiet_simps(2),
        where mw = False and performedBy = "''user-123''" and ip' = None and userAgent' = None]
    by (simp add: Let_def)
  then obtain r where first: "?first = (Inr r, snd ?first)" ..
  note C = C2_version_check[of False "''wallet-123''" "amount_dto 5000000 None" "''user-123''"
      None None _ store r "snd ?first" wallet123 ?env2 "amount_dto 10000 None" "''user-456''" None None]
  note w = store_wallet123[of False]
  have "r = Some (wallet123\<lparr>balance := balance wallet123 + dto_amount (amount_dto 5000000 None),
                             version := version wallet123 + 1\<rparr>)"
    by (rule C[of quiet, THEN conjunct2, THEN conjunct2, THEN conjunct1, THEN mp, THEN conjunct1,
                THEN mp])
       (intro conjI w quiet_simps(1), rule first)
  then have "r = Some (wallet123\<lparr>balance := 15000000, version := 2\<rparr>)"
    by (simp add: wallet123_def amount_dto_def)
  with first have 1: "fst ?first = Inr (Some (wallet123\<lparr>balance := 15000000, version := 2\<rparr>))"
    by (metis fst_conv)
  have 2: "fund_unit False ''wallet-123'' (amount_dto 5000000 None) ''user-123'' None None racing store =
     (Inl ConcurrentModification, concurrent racing store)"
    by (rule C[of racing, THEN conjunct2, THEN conjunct2, THEN conjunct2, THEN conjunct1, THEN mp,
                THEN conjunct1])
       (intro conjI w d racing_store)
  have e: "concurrent ?env2 store = snd ?first" by simp
  have 3: "fund_unit False ''wallet-123'' (amount_dto 10000 None) ''user-456'' None None ?env2 store =
     (Inl ConcurrentModification, snd ?first)"
    by (rule C[of quiet, THEN conjunct2, THEN conjunct2, THEN conjunct2, THEN conjunct2, THEN mp,
                THEN conjunct1])
       (intro conjI w disjI1 e, rule first)
  from 1 2 3 show ?thesis by (intro conjI)
qed

subsection \<open>A reference that is already in the ledger\<close>

lemma attempts_first:
  "unit (envs 0) db = (r, db') \<Longrightarrow> attempts envs unit (db, 0) = (r, db', 1)"
  by (simp add: attempts_def)

lemma not_lock_conflict_Prisma: "\<not> is_lock_conflict (PrismaClientKnownRequestError code)"
  by simp

lemma supplied_reference:
  "r \<noteq> [] \<Longrightarrow> reference_or_generated env (Some r) = r"
  by (simp add: reference_or_generated_def)

lemma fund_unit_never_commits:
  assumes "reference_or_generated env (dto_reference dto)
             \<in> set (map reference (transactions (concurrent env db)))"
  shows "\<exists>e. fund_unit mw i dto performedBy ip' userAgent' env db = (Inl e, db) \<or>
             fund_unit mw i dto performedBy ip' userAgent' env db = (Inl e, concurrent env db)"
proof (cases "wallet_findUnique mw db i")
  case None
  then show ?thesis by (auto simp add: fund_unit_not_found)
next
  case (Some wallet)
  show ?thesis
  proof (cases "deletedAt wallet = None")
    case False
    with Some show ?thesis by (auto simp add: fund_unit_deleted)
  next
    case d: True
    show ?thesis
    proof (cases "list_ex (\<lambda>w. wallet_id w = i \<and> version w = version wallet)
                    (wallets (concurrent env db))")
      case False
      with Some d show ?thesis by (auto simp add: fund_unit_conflict)
    next
      case True
      with Some d assms show ?thesis by (auto simp add: fund_unit_duplicate)
    qed
  qed
qed

lemma withdraw_unit_never_commits:
  assumes "reference_or_generated env (dto_reference dto)
             \<in> set (map reference (transactions (concurrent env db)))"
  shows "\<exists>e. withdraw_unit mw i dto performedBy ip' userAgent' env db = (Inl e, db) \<or>
             withdraw_unit mw i dto performedBy ip' userAgent' env db = (Inl e, concurrent env db)"
proof (cases "wallet_findUnique mw db i")
  case None
  then show ?thesis by (auto simp add: withdraw_unit_not_found)
next
  case (Some wallet)
  show ?thesis
  proof (cases "deletedAt wallet = None")
    case False
    with Some show ?thesis by (auto simp add: withdraw_unit_deleted)
  next
    case d: True
    show ?thesis
    proof (cases "dto_amount dto \<le> balance wallet")
      case False
      with Some d show ?thesis by (auto simp add: withdraw_unit_insufficient)
    next
      case s: True
      show ?thesis
      proof (cases "list_ex (\<lambda>w. wallet_id w = i \<and> version w = version wallet)
                      (wallets (concurrent env db))")
        case False
        with Some d s show ?thesis by (auto simp add: withdraw_unit_conflict)
      next
        case True
        with Some d s assms show ?thesis by (auto simp add: withdraw_unit_duplicate)
      qed
    qed
  qed
qed

lemma fund_duplicate_wrapped:
  assumes "wallet_findUnique mw db i = Some wallet" "deletedAt wallet = None"
    and "concurrent (envs 0) db = db"
    and "reference_or_generated (envs 0) (dto_reference dto) \<in> set (map reference (transactions db))"
  shows "fund mw i dto performedBy ip' userAgent' envs db =
         (Inl (PrismaClientKnownRequestError ''P2002''), (db, 1), [])"
proof -
  have "fund_unit mw i dto performedBy ip' userAgent' (envs 0) db =
        (Inl (PrismaClientKnownRequestError ''P2002''), db)"
    using fund_unit_duplicate[OF assms(1,2), of "envs 0" dto performedBy ip' userAgent']
      findUnique_hit[OF assms(1)] assms(3,4) by simp
  then show ?thesis
    unfolding fund_def
    by (intro executeWithRetry_first_error attempts_first not_lock_conflict_Prisma)
qed

lemma withdraw_duplicate_wrapped:
  assumes "wallet_findUnique mw db i = Some wallet" "deletedAt wallet = None"
    and "dto_amount dto \<le> balance wallet"
    and "concurrent (envs 0) db = db"
    and "reference_or_generated (envs 0) (dto_reference dto) \<in> set (map reference (transactions db))"
  shows "withdraw mw i dto performedBy ip' userAgent' envs db =
         (Inl (PrismaClientKnownRequestError ''P2002''), (db, 1), [])"
proof -
  have "withdraw_unit mw i dto performedBy ip' userAgent' (envs 0) db =
        (Inl (PrismaClientKnownRequestError ''P2002''), db)"
    using withdraw_unit_duplicate[OF assms(1,2,3), of "envs 0" performedBy ip' userAgent']
      findUnique_hit[OF assms(1)] assms(4,5) by simp
  then show ?thesis
    unfolding withdraw_def
    by (intro executeWithRetry_first_error attempts_first not_lock_conflict_Prisma)
qed

text \<open>
  C4, as the code has it. A second \<^verbatim>\<open>fund\<close> or \<^verbatim>\<open>withdraw\<close> with a non-empty
  reference that the ledger already holds never commits: every outcome of the unit is an
  error, and the store is the one the other writers left, so the reference still has the
  entries it had and the balance is not changed again. When the wallet is active (and, for
  a withdrawal, the funds suffice) and its version is unchanged, the outcome is the unique
  constraint violation \<^verbatim>\<open>P2002\<close> of \<^verbatim>\<open>transactions_reference_key\<close>, which
  \<^verbatim>\<open>executeWithRetry\<close> hands to the caller after the first attempt: the caller gets
  this error, not the prior result.
\<close>

theorem C4_duplicate_reference_rejected:
  "(dto_reference dto = Some ref \<and> ref \<noteq> [] \<and>
    ref \<in> set (map reference (transactions (concurrent env db))) \<longrightarrow>
      (\<exists>e. fund_unit mw i dto performedBy ip' userAgent' env db = (Inl e, db) \<or>
            fund_unit mw i dto performedBy ip' userAgent' env db = (Inl e, concurrent env db)) \<and>
      (\<exists>e. withdraw_unit mw i dto performedBy ip' userAgent' env db = (Inl e, db) \<or>
            withdraw_unit mw i dto performedBy ip' userAgent' env db = (Inl e, concurrent env db)) \<and>
      (wallet_findUnique mw db i = Some wallet \<and> deletedAt wallet = None \<and>
       list_ex (\<lambda>w. wallet_id w = i \<and> version w = version wallet) (wallets (concurrent env db)) \<longrightarrow>
         fund_unit mw i dto performedBy ip' userAgent' env db =
           (Inl (PrismaClientKnownRequestError ''P2002''), concurrent env db) \<and>
         (dto_amount dto \<le> balance wallet \<longrightarrow>
            withdraw_unit mw i dto performedBy ip' userAgent' env db =
              (Inl (PrismaClientKnownRequestError ''P2002''), concurrent env db)))) \<and>
   (dto_reference dto = Some ref \<and> ref \<noteq> [] \<and> ref \<in> set (map reference (transactions db)) \<and>
    concurrent (envs 0) db = db \<and>
    wallet_findUnique mw db i = Some wallet \<and> deletedAt wallet = None \<longrightarrow>
      fund mw i dto performedBy ip' userAgent' envs db =
        (Inl (PrismaClientKnownRequestError ''P2002''), (db, 1), []) \<and>
      (dto_amount dto \<le> balance wallet \<longrightarrow>
         withdraw mw i dto performedBy ip' userAgent' envs db =
           (Inl (PrismaClientKnownRequestError ''P2002''), (db, 1), [])))"
proof (intro conjI impI; elim conjE)
  assume a: "dto_reference dto = Some ref" "ref \<noteq> []"
    "ref \<in> set (map reference (transactions (concurrent env db)))"
  then have r: "reference_or_generated env (dto_reference dto)
                  \<in> set (map reference (transactions (concurrent env db)))"
    by (simp add: supplied_reference)
  from r show "\<exists>e. fund_unit mw i dto performedBy ip' userAgent' env db = (Inl e, db) \<or>
            fund_unit mw i dto performedBy ip' userAgent' env db = (Inl e, concurrent env db)"
    by (rule fund_unit_never_commits)
  from r show "\<exists>e. withdraw_unit mw i dto performedBy ip' userAgent' env db = (Inl e, db) \<or>
            withdraw_unit mw i dto performedBy ip' userAgent' env db = (Inl e, concurrent env db)"
    by (rule withdraw_unit_never_commits)
  assume b: "wallet_findUnique mw db i = Some wallet" "deletedAt wallet = None"
    "list_ex (\<lambda>w. wallet_id w = i \<and> version w = version wallet) (wallets (concurrent env db))"
  from b r show "fund_unit mw i dto performedBy ip' userAgent' env db =
           (Inl (PrismaClientKnownRequestError ''P2002''), concurrent env db)"
    by (simp add: fund_unit_duplicate)
  assume "dto_amount dto \<le> balance wallet"
  with b r show "withdraw_unit mw i dto performedBy ip' userAgent' env db =
              (Inl (PrismaClientKnownRequestError ''P2002''), concurrent env db)"
    by (simp add: withdraw_unit_duplicate)
next
  assume a: "dto_reference dto = Some ref" "ref \<noteq> []" "ref \<in> set (map reference (transactions db))"
    "concurrent (envs 0) db = db" "wallet_findUnique mw db i = Some wallet" "deletedAt wallet = None"
  then have r: "reference_or_generated (envs 0) (dto_reference dto)
                  \<in> set (map reference (transactions db))"
    by (simp add: supplied_reference)
  from a r show "fund mw i dto performedBy ip' userAgent' envs db =
        (Inl (PrismaClientKnownRequestError ''P2002''), (db, 1), [])"
    by (intro fund_duplicate_wrapped)
  assume "dto_amount dto \<le> balance wallet"
  with a r show "withdraw mw i dto performedBy ip' userAgent' envs db =
           (Inl (PrismaClientKnownRequestError ''P2002''), (db, 1), [])"
    by (intro withdraw_duplicate_wrapped)
qed

lemma calm_simps: "calm k = quiet"
  by (simp add: calm_def)

theorem C4_duplicate_reference_rejected_witness:
  "fund_unit False ''wallet-123'' (amount_dto 5000000 (Some ''FUND-001'')) ''user-123'' None None
     quiet store = (Inl (PrismaClientKnownRequestError ''P2002''), store) \<and>
   withdraw False ''wallet-123'' (amount_dto 2500000 (Some ''FUND-001'')) ''user-123'' None None
     calm store = (Inl (PrismaClientKnownRequestError ''P2002''), (store, 1), [])"
proof -
  note w = store_wallet123[of False]
  have d: "deletedAt wallet123 = None" by (simp add: wallet123_def)
  have r: "dto_reference (amount_dto a (Some ''FUND-001'')) = Some ''FUND-001''" for a
    by (simp add: amount_dto_def)
  have n: "''FUND-001'' \<noteq> []" by simp
  have m: "''FUND-001'' \<in> set (map reference (transactions store))"
    by (simp add: store_references)
  have h: "list_ex (\<lambda>w. wallet_id w = ''wallet-123'' \<and> version w = version wallet123)
             (wallets (concurrent quiet store))"
    using findUnique_hit[OF w] by (simp add: quiet_simps)
  have s: "dto_amount (amount_dto 2500000 (Some ''FUND-001'')) \<le> balance wallet123"
    by (simp add: amount_dto_def wallet123_def)
  have q: "concurrent (calm 0) store = store" by (simp add: calm_simps quiet_simps)
  have 1: "fund_unit False ''wallet-123'' (amount_dto 5000000 (Some ''FUND-001'')) ''user-123'' None None
     quiet store = (Inl (PrismaClientKnownRequestError ''P2002''), concurrent quiet store)"
    by (rule C4_duplicate_reference_rejected[where ref = "''FUND-001''" and wallet = wallet123,
          THEN conjunct1, THEN mp, THEN conjunct2, THEN conjunct2, THEN mp, THEN conjunct1])
       (use r w d h m in \<open>simp_all add: quiet_simps\<close>)
  have 2: "withdraw False ''wallet-123'' (amount_dto 2500000 (Some ''FUND-001'')) ''user-123'' None None
     calm store = (Inl (PrismaClientKnownRequestError ''P2002''), (store, 1), [])"
    by (rule C4_duplicate_reference_rejected[where ref = "''FUND-001''" and wallet = wallet123,
          THEN conjunct2, THEN mp, THEN conjunct2, THEN mp])
       (use r m q w d s in simp_all)
  from 1 2 show ?thesis by (simp add: quiet_simps)
qed

theorem C4_prior_result_counterexample:
  "fund False ''wallet-123'' (amount_dto 5000000 (Some ''FUND-001'')) ''user-123'' None None calm store =
     (Inl (PrismaClientKnownRequestError ''P2002''), (store, 1), [])"
proof (rule fund_duplicate_wrapped)
  show "wallet_findUnique False store ''wallet-123'' = Some wallet123" by (rule store_wallet123)
  show "deletedAt wallet123 = None" by (simp add: wallet123_def)
  show "concurrent (calm 0) store = store" by (simp add: calm_simps quiet_simps)
  show "reference_or_generated (calm 0) (dto_reference (amount_dto 5000000 (Some ''FUND-001'')))
          \<in> set (map reference (transactions store))"
    by (simp add: amount_dto_def supplied_reference store_references)
qed

subsection \<open>A failing audit store\<close>

lemma env_audit_update [simp]:
  "concurrent (env\<lparr>audit_failure := x\<rparr>) = concurrent env"
  "reference_or_generated (env\<lparr>audit_failure := x\<rparr>) r = reference_or_generated env r"
  "now (env\<lparr>audit_failure := x\<rparr>) = now env"
  "uuid (env\<lparr>audit_failure := x\<rparr>) = uuid env"
  by (simp_all add: reference_or_generated_def generateTransactionReference_def
        split: option.splits)

lemma fund_unit_audit_rollback:
  assumes "audit_failure env = Some error"
    and "fund_unit mw i dto performedBy ip' userAgent' (env\<lparr>audit_failure := None\<rparr>) db = (Inr r, db')"
  shows "fund_unit mw i dto performedBy ip' userAgent' env db = (Inl error, concurrent env db)"
proof -
  from fund_unit_InrD[OF assms(2)] obtain wallet where
    "wallet_findUnique mw db i = Some wallet" "deletedAt wallet = None"
    "list_ex (\<lambda>w. wallet_id w = i \<and> version w = version wallet) (wallets (concurrent env db))"
    "reference_or_generated env (dto_reference dto)
       \<notin> set (map reference (transactions (concurrent env db)))"
    by auto
  then show ?thesis using assms(1) by (rule fund_unit_audit_failure)
qed

lemma withdraw_unit_audit_rollback:
  assumes "audit_failure env = Some error"
    and "withdraw_unit mw i dto performedBy ip' userAgent' (env\<lparr>audit_failure := None\<rparr>) db = (Inr r, db')"
  shows "withdraw_unit mw i dto performedBy ip' userAgent' env db = (Inl error, concurrent env db)"
proof -
  from withdraw_unit_InrD[OF assms(2)] obtain wallet where
    "wallet_findUnique mw db i = Some wallet" "deletedAt wallet = None"
    "dto_amount dto \<le> balance wallet"
    "list_ex (\<lambda>w. wallet_id w = i \<and> version w = version wallet) (wallets (concurrent env db))"
    "reference_or_generated env (dto_reference dto)
       \<notin> set (map reference (transactions (concurrent env db)))"
    by auto
  then show ?thesis using assms(1) by (rule withdraw_unit_audit_failure)
qed

lemma wallet_create_auditLogs:
  "wallet_create db row = Inr db1 \<Longrightarrow> auditLogs db1 = auditLogs db"
  by (auto simp add: wallet_create_def split: if_splits)

lemma wallet_delete_auditLogs:
  "wallet_delete mw env db i = Inr db1 \<Longrightarrow> auditLogs db1 = auditLogs db"
  by (auto simp add: wallet_delete_def split: if_splits)

lemma wallet_delete_audit_env [simp]:
  "wallet_delete mw (env\<lparr>audit_failure := x\<rparr>) db i = wallet_delete mw env db i"
  by (simp add: wallet_delete_def)

lemma create_audit_failure:
  assumes "audit_failure env = Some error"
    and "create userId' cdto ip' userAgent' (env\<lparr>audit_failure := None\<rparr>) db = (Inr w, db')"
  shows "create userId' cdto ip' userAgent' env db = (Inl error, db'\<lparr>auditLogs := auditLogs db\<rparr>)"
  using assms
  by (auto simp add: create_def AuditService_log_def Let_def split: sum.splits
        dest: wallet_create_auditLogs)

lemma delete_audit_failure:
  assumes "audit_failure env = Some error"
    and "delete mw i userId' ip' userAgent' (env\<lparr>audit_failure := None\<rparr>) db = (Inr u, db')"
  shows "delete mw i userId' ip' userAgent' env db = (Inl error, db'\<lparr>auditLogs := auditLogs db\<rparr>)"
  using assms
  by (auto simp add: delete_def AuditService_log_def split: sum.splits if_splits
        dest: wallet_delete_auditLogs)

lemma toUpperCase_EUR: "toUpperCase ''EUR'' = ''EUR''"
  by (simp add: toUpperCase_def lower_letters_def upper_letters_def)

lemma create_store_travel:
  "create ''user-456'' \<lparr>dto_name = ''Travel'', dto_currency = ''EUR''\<rparr> None None quiet store =
   (Inr \<lparr>wallet_id = ''wallet-900'', name = ''Travel'', currency = ''EUR'', balance = 0,
          version = 0, userId = ''user-456'', deletedAt = None\<rparr>,
    store\<lparr>wallets := wallets store @
             [\<lparr>wallet_id = ''wallet-900'', name = ''Travel'', currency = ''EUR'', balance = 0,
               version = 0, userId = ''user-456'', deletedAt = None\<rparr>],
           auditLogs := auditLogs store @
             [\<lparr>actorUserId = Some ''user-456'', entity = ''Wallet'', entityId = ''wallet-900'',
               action = CREATE, changes = Some [(''name'', ''Travel''), (''currency'', ''EUR'')],
               ip = None, userAgent = None\<rparr>]\<rparr>)"
  by (simp add: create_def wallet_create_def AuditService_log_def toUpperCase_EUR quiet_def
        store_def wallet123_def wallet456_def wallet789_def Let_def)

lemma audit_down_simps:
  "audit_down k = quiet\<lparr>audit_failure := Some (Error ''audit store unavailable'')\<rparr>"
  "audit_failure (audit_down k) = Some (Error ''audit store unavailable'')"
  "concurrent (audit_down k) db = db"
  "(audit_down k)\<lparr>audit_failure := None\<rparr> = quiet"
  "generateTransactionReference (audit_down k) = ''TXN-MHK3T2Q9-9F1C2B7A''"
  by (simp_all add: audit_down_def quiet_def generateTransactionReference_def)

lemma fund_audit_failure_wrapped:
  assumes "audit_failure (envs 0) = Some error" and "\<not> is_lock_conflict error"
    and "fund_unit mw i dto performedBy ip' userAgent' ((envs 0)\<lparr>audit_failure := None\<rparr>) db = (Inr r, db')"
  shows "fund mw i dto performedBy ip' userAgent' envs db =
         (Inl error, (concurrent (envs 0) db, 1), [])"
proof -
  have "fund_unit mw i dto performedBy ip' userAgent' (envs 0) db =
        (Inl error, concurrent (envs 0) db)"
    by (rule fund_unit_audit_rollback[OF assms(1,3)])
  then have "attempts envs (fund_unit mw i dto performedBy ip' userAgent') (db, 0) =
             (Inl error, concurrent (envs 0) db, 1)"
    by (rule attempts_first)
  then show ?thesis unfolding fund_def using assms(2) by (rule executeWithRetry_first_error)
qed

lemma withdraw_audit_failure_wrapped:
  assumes "audit_failure (envs 0) = Some error" and "\<not> is_lock_conflict error"
    and "withdraw_unit mw i dto performedBy ip' userAgent' ((envs 0)\<lparr>audit_failure := None\<rparr>) db = (Inr r, db')"
  shows "withdraw mw i dto performedBy ip' userAgent' envs db =
         (Inl error, (concurrent (envs 0) db, 1), [])"
proof -
  have "withdraw_unit mw i dto performedBy ip' userAgent' (envs 0) db =
        (Inl error, concurrent (envs 0) db)"
    by (rule withdraw_unit_audit_rollback[OF assms(1,3)])
  then have "attempts envs (withdraw_unit mw i dto performedBy ip' userAgent') (db, 0) =
             (Inl error, concurrent (envs 0) db, 1)"
    by (rule attempts_first)
  then show ?thesis unfolding withdraw_def using assms(2) by (rule executeWithRetry_first_error)
qed

text \<open>
  How an audit failure travels. \<^verbatim>\<open>AuditService.log\<close> logs a failed insert and throws
  it again, and \<^verbatim>\<open>WalletsService\<close> does not catch it. In \<^verbatim>\<open>fund\<close> and
  \<^verbatim>\<open>withdraw\<close> the call sits inside the atomic unit: a unit that would have committed
  fails with the audit error instead, its balance and version update and its ledger entry
  are rolled back, and (the error not being a lock conflict) the caller gets the error
  after the first attempt. In \<^verbatim>\<open>create\<close> and \<^verbatim>\<open>delete\<close> the wallet mutation is
  already applied and stays applied, without an audit entry, but the operation fails with
  the audit error instead of returning its result.
\<close>

lemma audit_failure_propagates:
  "(audit_failure env = Some error \<longrightarrow>
      (fund_unit mw i dto performedBy ip' userAgent' (env\<lparr>audit_failure := None\<rparr>) db = (Inr r, db') \<longrightarrow>
         fund_unit mw i dto performedBy ip' userAgent' env db = (Inl error, concurrent env db)) \<and>
      (withdraw_unit mw i dto performedBy ip' userAgent' (env\<lparr>audit_failure := None\<rparr>) db = (Inr r, db') \<longrightarrow>
         withdraw_unit mw i dto performedBy ip' userAgent' env db = (Inl error, concurrent env db)) \<and>
      (create userId' cdto ip' userAgent' (env\<lparr>audit_failure := None\<rparr>) db = (Inr w, db') \<longrightarrow>
         create userId' cdto ip' userAgent' env db = (Inl error, db'\<lparr>auditLogs := auditLogs db\<rparr>)) \<and>
      (delete mw i userId' ip' userAgent' (env\<lparr>audit_failure := None\<rparr>) db = (Inr u, db') \<longrightarrow>
         delete mw i userId' ip' userAgent' env db = (Inl error, db'\<lparr>auditLogs := auditLogs db\<rparr>))) \<and>
   (audit_failure (envs 0) = Some error \<and> \<not> is_lock_conflict error \<longrightarrow>
      (fund_unit mw i dto performedBy ip' userAgent' ((envs 0)\<lparr>audit_failure := None\<rparr>) db = (Inr r, db') \<longrightarrow>
         fund mw i dto performedBy ip' userAgent' envs db =
           (Inl error, (concurrent (envs 0) db, 1), [])) \<and>
      (withdraw_unit mw i dto performedBy ip' userAgent' ((envs 0)\<lparr>audit_failure := None\<rparr>) db = (Inr r, db') \<longrightarrow>
         withdraw mw i dto performedBy ip' userAgent' envs db =
           (Inl error, (concurrent (envs 0) db, 1), [])))"
  by (intro conjI impI; (elim conjE)?;
      (rule fund_unit_audit_rollback withdraw_unit_audit_rollback create_audit_failure
            delete_audit_failure fund_audit_failure_wrapped withdraw_audit_failure_wrapped;
       assumption))

lemma audit_failure_propagates_create:
  "create ''user-456'' \<lparr>dto_name = ''Travel'', dto_currency = ''EUR''\<rparr> None None (audit_down 0) store =
     (Inl (Error ''audit store unavailable''),
      store\<lparr>wallets := wallets store @
               [\<lparr>wallet_id = ''wallet-900'', name = ''Travel'', currency = ''EUR'', balance = 0,
                 version = 0, userId = ''user-456'', deletedAt = None\<rparr>]\<rparr>)"
proof -
  note C = audit_failure_propagates[where env = "audit_down 0"
      and error = "Error ''audit store unavailable''",
      THEN conjunct1, THEN mp, THEN conjunct2, THEN conjunct2, THEN conjunct1, THEN mp]
  have "create ''user-456'' \<lparr>dto_name = ''Travel'', dto_currency = ''EUR''\<rparr> None None
          ((audit_down 0)\<lparr>audit_failure := None\<rparr>) store = (Inr w, db') \<Longrightarrow>
        create ''user-456'' \<lparr>dto_name = ''Travel'', dto_currency = ''EUR''\<rparr> None None
          (audit_down 0) store = (Inl (Error ''audit store unavailable''),
                                  db'\<lparr>auditLogs := auditLogs store\<rparr>)" for w db'
    by (rule C) (simp_all add: audit_down_simps)
  from this[unfolded audit_down_simps(4), OF create_store_travel]
  show ?thesis by (simp add: store_def)
qed

text \<open>
  C7 fails on every wallet operation; here on \<^verbatim>\<open>fund\<close>. The repository's
  \<^verbatim>\<open>AuditInterceptor\<close> wraps the same \<^verbatim>\<open>auditService.log\<close> call in a try/catch
  (``Don't fail the request if audit logging fails''); \<^verbatim>\<open>WalletsService\<close> does not.
  Funding the first wallet with 500.0000 while the audit store rejects its insert returns
  the audit error to the caller after one attempt, and the store is unchanged: no updated
  wallet is returned, and the credit that had been applied inside the unit is rolled back.
\<close>

theorem C7_audit_failure_fails_fund:
  "fund False ''wallet-123'' (amount_dto 5000000 None) ''user-123'' None None audit_down store =
     (Inl (Error ''audit store unavailable''), (store, 1), [])"
proof -
  have d: "deletedAt wallet123 = None" by (simp add: wallet123_def)
  have h: "list_ex (\<lambda>w. wallet_id w = ''wallet-123'' \<and> version w = version wallet123)
             (wallets (concurrent (audit_down 0) store))"
    using findUnique_hit[OF store_wallet123] by (simp add: audit_down_simps(3))
  have n: "reference_or_generated (audit_down 0) (dto_reference (amount_dto 5000000 None))
             \<notin> set (map reference (transactions (concurrent (audit_down 0) store)))"
    by (simp add: audit_down_simps(3,5) store_references reference_or_generated_def
          amount_dto_def)
  have "fund_unit False ''wallet-123'' (amount_dto 5000000 None) ''user-123'' None None
          (audit_down 0) store = (Inl (Error ''audit store unavailable''), store)"
    using fund_unit_audit_failure[OF store_wallet123 d h n audit_down_simps(2),
        where mw = False and performedBy = "''user-123''" and ip' = None and userAgent' = None]
    by (simp add: audit_down_simps(3))
  then show ?thesis
    unfolding fund_def by (intro executeWithRetry_first_error attempts_first) simp_all
qed

subsection \<open>Transfers\<close>

lemma transfer_not_found:
  "wallet_findUnique mw db fromWalletId = None \<or> wallet_findUnique mw db toWalletId = None \<Longrightarrow>
   transfer mw fromWalletId toWalletId a performedBy description' env db =
     (Inl (NotFoundException ''One or both wallets not found''), db)"
  by (auto simp add: transfer_def split: option.splits)

lemma transfer_currency_mismatch:
  "wallet_findUnique mw db fromWalletId = Some fromWallet \<Longrightarrow>
   wallet_findUnique mw db toWalletId = Some toWallet \<Longrightarrow>
   currency fromWallet \<noteq> currency toWallet \<Longrightarrow>
   transfer mw fromWalletId toWalletId a performedBy description' env db =
     (Inl (BadRequestException ''Cross-currency transfers require conversion (not implemented)''), db)"
  by (simp add: transfer_def)

lemma transfer_insufficient:
  "wallet_findUnique mw db fromWalletId = Some fromWallet \<Longrightarrow>
   wallet_findUnique mw db toWalletId = Some toWallet \<Longrightarrow>
   currency fromWallet = currency toWallet \<Longrightarrow> balance fromWallet < a \<Longrightarrow>
   transfer mw fromWalletId toWalletId a performedBy description' env db =
     (Inl (BadRequestException ''Insufficient funds''), db)"
  by (simp add: transfer_def)

lemma transfer_atomic:
  "transfer mw fromWalletId toWalletId a performedBy description' env db = (Inl error, db') \<Longrightarrow>
   db' = db"
  by (auto simp add: transfer_def Let_def split: option.splits if_splits sum.splits)

lemma id_member_list_ex:
  "i \<in> set (map wallet_id xs) \<longleftrightarrow> list_ex (\<lambda>w. wallet_id w = i) xs"
  by (induction xs) auto

lemma findUnique_list_ex:
  "wallet_findUnique mw db i = Some wallet \<Longrightarrow> list_ex (\<lambda>w. wallet_id w = i) (wallets db)"
  by (auto simp add: list_ex_iff dest: findUnique_row)

lemma list_ex_id_moved:
  "list_ex (\<lambda>w. wallet_id w = i)
     (map (\<lambda>w. if wallet_id w = k then w\<lparr>balance := balance w + d, version := version w + 1\<rparr>
               else w) xs) =
   list_ex (\<lambda>w. wallet_id w = i) xs"
  by (induction xs) auto

lemma wallet_update_Inr:
  "list_ex (\<lambda>w. wallet_id w = i) (wallets db) \<Longrightarrow>
   wallet_update db i d =
     Inr (db\<lparr>wallets := map (\<lambda>w. if wallet_id w = i
                                  then w\<lparr>balance := balance w + d, version := version w + 1\<rparr>
                                  else w) (wallets db)\<rparr>)"
  unfolding wallet_update_def id_member_list_ex by simp

lemma TransactionsService_create_Inr:
  "reference dto \<notin> set (map reference (transactions tx)) \<Longrightarrow>
   list_ex (\<lambda>w. wallet_id w = walletId dto) (wallets tx) \<Longrightarrow>
   TransactionsService_create tx dto = Inr (tx\<lparr>transactions := transactions tx @ [dto]\<rparr>)"
  unfolding TransactionsService_create_def id_member_list_ex by simp

lemma OUT_IN_differ: "r @ ''-OUT'' \<noteq> r @ ''-IN''"
  by simp

lemma transfer_commit:
  assumes "wallet_findUnique mw db fromWalletId = Some fromWallet"
    and "wallet_findUnique mw db toWalletId = Some toWallet"
    and "currency fromWallet = currency toWallet"
    and "a \<le> balance fromWallet"
    and "generateTransactionReference env @ ''-OUT'' \<notin> set (map reference (transactions db))"
    and "generateTransactionReference env @ ''-IN'' \<notin> set (map reference (transactions db))"
  shows "transfer mw fromWalletId toWalletId a performedBy description' env db =
     (let tx4 = db\<lparr>wallets :=
                     map (\<lambda>w. if wallet_id w = toWalletId
                               then w\<lparr>balance := balance w + a, version := version w + 1\<rparr> else w)
                       (map (\<lambda>w. if wallet_id w = fromWalletId
                                  then w\<lparr>balance := balance w + - a, version := version w + 1\<rparr>
                                  else w) (wallets db)),
                   transactions := transactions db @
                     [\<lparr>walletId = fromWalletId, txn_type = DEBIT, amount = a,
                       balanceBefore = balance fromWallet, balanceAfter = balance fromWallet - a,
                       reference = generateTransactionReference env @ ''-OUT'',
                       description = Some (description_or description'
                                             (''Transfer to wallet '' @ toWalletId)),
                       metadata = Some [(''toWalletId'', toWalletId)],
                       performedByUserId = performedBy\<rparr>,
                      \<lparr>walletId = toWalletId, txn_type = CREDIT, amount = a,
                       balanceBefore = balance toWallet, balanceAfter = balance toWallet + a,
                       reference = generateTransactionReference env @ ''-IN'',
                       description = Some (description_or description'
                                             (''Transfer from wallet '' @ fromWalletId)),
                       metadata = Some [(''fromWalletId'', fromWalletId)],
                       performedByUserId = performedBy\<rparr>]\<rparr>
      in (Inr (wallet_findUnique mw tx4 fromWalletId, wallet_findUnique mw tx4 toWalletId), tx4))"
proof -
  note ex = findUnique_list_ex[OF assms(1)] findUnique_list_ex[OF assms(2)]
  show ?thesis
    using assms ex
    by (simp add: transfer_def Let_def wallet_update_Inr TransactionsService_create_Inr
          list_ex_id_moved del: map_map)
qed

lemma TransactionsService_create_duplicate:
  "reference dto \<in> set (map reference (transactions tx)) \<Longrightarrow>
   TransactionsService_create tx dto = Inl (PrismaClientKnownRequestError ''P2002'')"
  by (simp add: TransactionsService_create_def)

lemma transfer_duplicate_out:
  assumes "wallet_findUnique mw db fromWalletId = Some fromWallet"
    and "wallet_findUnique mw db toWalletId = Some toWallet"
    and "currency fromWallet = currency toWallet"
    and "a \<le> balance fromWallet"
    and "generateTransactionReference env @ ''-OUT'' \<in> set (map reference (transactions db))"
  shows "transfer mw fromWalletId toWalletId a performedBy description' env db =
         (Inl (PrismaClientKnownRequestError ''P2002''), db)"
  using assms findUnique_list_ex[OF assms(1)]
  by (simp add: transfer_def Let_def wallet_update_Inr TransactionsService_create_duplicate)

lemma transfer_duplicate_in:
  assumes "wallet_findUnique mw db fromWalletId = Some fromWallet"
    and "wallet_findUnique mw db toWalletId = Some toWallet"
    and "currency fromWallet = currency toWallet"
    and "a \<le> balance fromWallet"
    and "generateTransactionReference env @ ''-OUT'' \<notin> set (map reference (transactions db))"
    and "generateTransactionReference env @ ''-IN'' \<in> set (map reference (transactions db))"
  shows "transfer mw fromWalletId toWalletId a performedBy description' env db =
         (Inl (PrismaClientKnownRequestError ''P2002''), db)"
  using assms findUnique_list_ex[OF assms(1)] findUnique_list_ex[OF assms(2)]
  by (simp add: transfer_def Let_def wallet_update_Inr TransactionsService_create_Inr
        TransactionsService_create_duplicate list_ex_id_moved del: map_map)

lemma transfer_InrD:
  assumes "transfer mw fromWalletId toWalletId a performedBy description' env db = (Inr r, db')"
  shows "\<exists>fromWallet toWallet.
           wallet_findUnique mw db fromWalletId = Some fromWallet \<and>
           wallet_findUnique mw db toWalletId = Some toWallet \<and>
           currency fromWallet = currency toWallet \<and> a \<le> balance fromWallet \<and>
           generateTransactionReference env @ ''-OUT'' \<notin> set (map reference (transactions db)) \<and>
           generateTransactionReference env @ ''-IN'' \<notin> set (map reference (transactions db))"
proof (cases "wallet_findUnique mw db fromWalletId")
  case None
  with assms show ?thesis by (simp add: transfer_not_found)
next
  case f: (Some fromWallet)
  show ?thesis
  proof (cases "wallet_findUnique mw db toWalletId")
    case None
    with assms show ?thesis by (simp add: transfer_not_found)
  next
    case t: (Some toWallet)
    have c: "currency fromWallet = currency toWallet"
      using assms transfer_currency_mismatch[OF f t, of a performedBy description' env]
      by (cases "currency fromWallet = currency toWallet") simp_all
    have s: "a \<le> balance fromWallet"
      using assms transfer_insufficient[OF f t c, of a performedBy description' env]
      by (cases "a \<le> balance fromWallet") simp_all
    have o: "generateTransactionReference env @ ''-OUT'' \<notin> set (map reference (transactions db))"
      using assms transfer_duplicate_out[OF f t c s, of env performedBy description']
      by (cases "generateTransactionReference env @ ''-OUT'' \<in> set (map reference (transactions db))")
         simp_all
    have n: "generateTransactionReference env @ ''-IN'' \<notin> set (map reference (transactions db))"
      using assms transfer_duplicate_in[OF f t c s o, of performedBy description']
      by (cases "generateTransactionReference env @ ''-IN'' \<in> set (map reference (transactions db))")
         simp_all
    from f t c s o n show ?thesis by blast
  qed
qed

text \<open>
  C5. \<^verbatim>\<open>transfer\<close> is atomic. Every error leaves the store as it was; a missing wallet,
  differing currencies and an insufficient source balance are such errors. A transfer that
  succeeds has passed all three checks, and its store is the old one with the source
  debited and the destination credited (each version one higher) and exactly two ledger
  entries appended: a DEBIT under the generated reference with \<^verbatim>\<open>-OUT\<close> and a CREDIT
  under the same reference with \<^verbatim>\<open>-IN\<close>. With the checks passed and both references
  unused, the transfer does succeed.
\<close>

theorem C5_transfer_atomic:
  "(transfer mw fromWalletId toWalletId a performedBy description' env db = (Inl error, db') \<longrightarrow>
      db' = db) \<and>
   (wallet_findUnique mw db fromWalletId = None \<or> wallet_findUnique mw db toWalletId = None \<longrightarrow>
      transfer mw fromWalletId toWalletId a performedBy description' env db =
        (Inl (NotFoundException ''One or both wallets not found''), db)) \<and>
   (wallet_findUnique mw db fromWalletId = Some fromWallet \<and>
    wallet_findUnique mw db toWalletId = Some toWallet \<longrightarrow>
      (currency fromWallet \<noteq> currency toWallet \<longrightarrow>
         transfer mw fromWalletId toWalletId a performedBy description' env db =
           (Inl (BadRequestException
                   ''Cross-currency transfers require conversion (not implemented)''), db)) \<and>
      (currency fromWallet = currency toWallet \<and> balance fromWallet < a \<longrightarrow>
         transfer mw fromWalletId toWalletId a performedBy description' env db =
           (Inl (BadRequestException ''Insufficient funds''), db)) \<and>
      (transfer mw fromWalletId toWalletId a performedBy description' env db = (Inr r, db') \<longrightarrow>
         currency fromWallet = currency toWallet \<and> a \<le> balance fromWallet \<and>
         wallets db' =
           map (\<lambda>w. if wallet_id w = toWalletId
                     then w\<lparr>balance := balance w + a, version := version w + 1\<rparr> else w)
             (map (\<lambda>w. if wallet_id w = fromWalletId
                        then w\<lparr>balance := balance w + - a, version := version w + 1\<rparr> else w)
                (wallets db)) \<and>
         transactions db' = transactions db @
           [\<lparr>walletId = fromWalletId, txn_type = DEBIT, amount = a,
             balanceBefore = balance fromWallet, balanceAfter = balance fromWallet - a,
             reference = generateTransactionReference env @ ''-OUT'',
             description = Some (description_or description' (''Transfer to wallet '' @ toWalletId)),
             metadata = Some [(''toWalletId'', toWalletId)],
             performedByUserId = performedBy\<rparr>,
            \<lparr>walletId = toWalletId, txn_type = CREDIT, amount = a,
             balanceBefore = balance toWallet, balanceAfter = balance toWallet + a,
             reference = generateTransactionReference env @ ''-IN'',
             description = Some (description_or description'
                                   (''Transfer from wallet '' @ fromWalletId)),
             metadata = Some [(''fromWalletId'', fromWalletId)],
             performedByUserId = performedBy\<rparr>] \<and>
         auditLogs db' = auditLogs db \<and>
         r = (wallet_findUnique mw db' fromWalletId, wallet_findUnique mw db' toWalletId)) \<and>
      (currency fromWallet = currency toWallet \<and> a \<le> balance fromWallet \<and>
       generateTransactionReference env @ ''-OUT'' \<notin> set (map reference (transactions db)) \<and>
       generateTransactionReference env @ ''-IN'' \<notin> set (map reference (transactions db)) \<longrightarrow>
         (\<exists>r db'. transfer mw fromWalletId toWalletId a performedBy description' env db =
                     (Inr r, db'))))"
proof (intro conjI impI; (elim conjE)?)
  assume "transfer mw fromWalletId toWalletId a performedBy description' env db = (Inl error, db')"
  then show "db' = db" by (rule transfer_atomic)
next
  assume "wallet_findUnique mw db fromWalletId = None \<or> wallet_findUnique mw db toWalletId = None"
  then show "transfer mw fromWalletId toWalletId a performedBy description' env db =
        (Inl (NotFoundException ''One or both wallets not found''), db)"
    by (rule transfer_not_found)
next
  assume "wallet_findUnique mw db fromWalletId = Some fromWallet"
    "wallet_findUnique mw db toWalletId = Some toWallet"
    "currency fromWallet \<noteq> currency toWallet"
  then show "transfer mw fromWalletId toWalletId a performedBy description' env db =
           (Inl (BadRequestException
                   ''Cross-currency transfers require conversion (not implemented)''), db)"
    by (rule transfer_currency_mismatch)
next
  assume "wallet_findUnique mw db fromWalletId = Some fromWallet"
    "wallet_findUnique mw db toWalletId = Some toWallet"
    "currency fromWallet = currency toWallet" "balance fromWallet < a"
  then show "transfer mw fromWalletId toWalletId a performedBy description' env db =
           (Inl (BadRequestException ''Insufficient funds''), db)"
    by (rule transfer_insufficient)
next
  assume f: "wallet_findUnique mw db fromWalletId = Some fromWallet"
    and t: "wallet_findUnique mw db toWalletId = Some toWallet"
    and ok: "transfer mw fromWalletId toWalletId a performedBy description' env db = (Inr r, db')"
  from transfer_InrD[OF ok] f t
  have c: "currency fromWallet = currency toWallet" and s: "a \<le> balance fromWallet"
    and o: "generateTransactionReference env @ ''-OUT'' \<notin> set (map reference (transactions db))"
    and n: "generateTransactionReference env @ ''-IN'' \<notin> set (map reference (transactions db))"
    by auto
  note commit = transfer_commit[OF f t c s o n, of performedBy description', unfolded Let_def ok]
  from c show "currency fromWallet = currency toWallet" .
  from s show "a \<le> balance fromWallet" .
  from commit show "wallets db' =
           map (\<lambda>w. if wallet_id w = toWalletId
                     then w\<lparr>balance := balance w + a, version := version w + 1\<rparr> else w)
             (map (\<lambda>w. if wallet_id w = fromWalletId
                        then w\<lparr>balance := balance w + - a, version := version w + 1\<rparr> else w)
                (wallets db))"
    by simp
  from commit show "transactions db' = transactions db @
           [\<lparr>walletId = fromWalletId, txn_type = DEBIT, amount = a,
             balanceBefore = balance fromWallet, balanceAfter = balance fromWallet - a,
             reference = generateTransactionReference env @ ''-OUT'',
             description = Some (description_or description' (''Transfer to wallet '' @ toWalletId)),
             metadata = Some [(''toWalletId'', toWalletId)],
             performedByUserId = performedBy\<rparr>,
            \<lparr>walletId = toWalletId, txn_type = CREDIT, amount = a,
             balanceBefore = balance toWallet, balanceAfter = balance toWallet + a,
             reference = generateTransactionReference env @ ''-IN'',
             description = Some (description_or description'
                                   (''Transfer from wallet '' @ fromWalletId)),
             metadata = Some [(''fromWalletId'', fromWalletId)],
             performedByUserId = performedBy\<rparr>]"
    by simp
  from commit show "auditLogs db' = auditLogs db" by simp
  from commit show "r = (wallet_findUnique mw db' fromWalletId, wallet_findUnique mw db' toWalletId)"
    by simp
next
  assume "wallet_findUnique mw db fromWalletId = Some fromWallet"
    "wallet_findUnique mw db toWalletId = Some toWallet"
    "currency fromWallet = currency toWallet" "a \<le> balance fromWallet"
    "generateTransactionReference env @ ''-OUT'' \<notin> set (map reference (transactions db))"
    "generateTransactionReference env @ ''-IN'' \<notin> set (map reference (transactions db))"
  from transfer_commit[OF this, of performedBy description']
  show "\<exists>r db'. transfer mw fromWalletId toWalletId a performedBy description' env db = (Inr r, db')"
    by (simp add: Let_def)
qed

lemma store_nobody: "wallet_findUnique mw store ''wallet-000'' = None"
  by (simp add: wallet_findUnique_def store_def wallet123_def wallet456_def wallet789_def)

lemma quiet_references_fresh:
  "generateTransactionReference quiet @ ''-OUT'' \<notin> set (map reference (transactions store))"
  "generateTransactionReference quiet @ ''-IN'' \<notin> set (map reference (transactions store))"
  by (simp_all add: quiet_simps store_references)

theorem C5_transfer_atomic_witness:
  "fst (transfer False ''wallet-123'' ''wallet-456'' 2500000 ''user-123'' None quiet store) =
     Inr (Some (wallet123\<lparr>balance := 7500000, version := 2\<rparr>),
          Some (wallet456\<lparr>balance := 2500000, version := 1\<rparr>)) \<and>
   map reference (transactions (snd (transfer False ''wallet-123'' ''wallet-456'' 2500000 ''user-123''
                                       None quiet store))) =
     [''FUND-001'', ''TXN-MHK3T2Q9-9F1C2B7A-OUT'', ''TXN-MHK3T2Q9-9F1C2B7A-IN''] \<and>
   transfer False ''wallet-123'' ''wallet-789'' 2500000 ''user-123'' None quiet store =
     (Inl (BadRequestException ''Cross-currency transfers require conversion (not implemented)''),
      store) \<and>
   transfer False ''wallet-456'' ''wallet-123'' 2500000 ''user-456'' None quiet store =
     (Inl (BadRequestException ''Insufficient funds''), store) \<and>
   transfer False ''wallet-123'' ''wallet-000'' 2500000 ''user-123'' None quiet store =
     (Inl (NotFoundException ''One or both wallets not found''), store)"
proof -
  let ?t = "transfer False ''wallet-123'' ''wallet-456'' 2500000 ''user-123'' None quiet store"
  note w1 = store_wallet123[of False] and w2 = store_wallet456[of False]
    and w3 = store_wallet789[of False]
  have c: "currency wallet123 = currency wallet456" "2500000 \<le> balance wallet123"
    by (simp_all add: wallet123_def wallet456_def)
  note C = C5_transfer_atomic[where mw = False and db = store and env = quiet
      and a = 2500000 and description' = None]
  have "\<exists>r db'. ?t = (Inr r, db')"
    by (rule C[where fromWallet = wallet123 and toWallet = wallet456,
            THEN conjunct2, THEN conjunct2, THEN mp, THEN conjunct2, THEN conjunct2,
            THEN conjunct2, THEN mp])
       (intro conjI w1 w2 c quiet_references_fresh)+
  then obtain r db' where ok: "?t = (Inr r, db')" by blast
  have shape: "currency wallet123 = currency wallet456 \<and> 2500000 \<le> balance wallet123 \<and>
         wallets db' =
           map (\<lambda>w. if wallet_id w = ''wallet-456''
                     then w\<lparr>balance := balance w + 2500000, version := version w + 1\<rparr> else w)
             (map (\<lambda>w. if wallet_id w = ''wallet-123''
                        then w\<lparr>balance := balance w + - 2500000, version := version w + 1\<rparr> else w)
                (wallets store)) \<and>
         transactions db' = transactions store @
           [\<lparr>walletId = ''wallet-123'', txn_type = DEBIT, amount = 2500000,
             balanceBefore = balance wallet123, balanceAfter = balance wallet123 - 2500000,
             reference = generateTransactionReference quiet @ ''-OUT'',
             description = Some (description_or None (''Transfer to wallet '' @ ''wallet-456'')),
             metadata = Some [(''toWalletId'', ''wallet-456'')],
             performedByUserId = ''user-123''\<rparr>,
            \<lparr>walletId = ''wallet-456'', txn_type = CREDIT, amount = 2500000,
             balanceBefore = balance wallet456, balanceAfter = balance wallet456 + 2500000,
             reference = generateTransactionReference quiet @ ''-IN'',
             description = Some (description_or None (''Transfer from wallet '' @ ''wallet-123'')),
             metadata = Some [(''fromWalletId'', ''wallet-123'')],
             performedByUserId = ''user-123''\<rparr>] \<and>
         auditLogs db' = auditLogs store \<and>
         r = (wallet_findUnique False db' ''wallet-123'', wallet_findUnique False db' ''wallet-456'')"
    by (rule C[where fromWallet = wallet123 and toWallet = wallet456,
            THEN conjunct2, THEN conjunct2, THEN mp, THEN conjunct2, THEN conjunct2,
            THEN conjunct1, THEN mp])
       (intro conjI w1 w2, rule ok)
  then have 1: "r = (Some (wallet123\<lparr>balance := 7500000, version := 2\<rparr>),
                     Some (wallet456\<lparr>balance := 2500000, version := 1\<rparr>))"
    by (simp add: wallet_findUnique_def store_def wallet123_def wallet456_def wallet789_def)
  from shape have 2: "map reference (transactions db') =
      [''FUND-001'', ''TXN-MHK3T2Q9-9F1C2B7A-OUT'', ''TXN-MHK3T2Q9-9F1C2B7A-IN'']"
    by (simp add: store_references quiet_simps)
  have 3: "transfer False ''wallet-123'' ''wallet-789'' 2500000 ''user-123'' None quiet store =
     (Inl (BadRequestException ''Cross-currency transfers require conversion (not implemented)''),
      store)"
    by (rule C[where fromWallet = wallet123 and toWallet = wallet789,
            THEN conjunct2, THEN conjunct2, THEN mp, THEN conjunct1, THEN mp])
       (intro conjI w1 w3, simp add: wallet123_def wallet789_def)
  have 4: "transfer False ''wallet-456'' ''wallet-123'' 2500000 ''user-456'' None quiet store =
     (Inl (BadRequestException ''Insufficient funds''), store)"
    by (rule C[where fromWallet = wallet456 and toWallet = wallet123,
            THEN conjunct2, THEN conjunct2, THEN mp, THEN conjunct2, THEN conjunct1, THEN mp])
       (intro conjI w1 w2, simp add: wallet123_def wallet456_def)
  have 5: "transfer False ''wallet-123'' ''wallet-000'' 2500000 ''user-123'' None quiet store =
     (Inl (NotFoundException ''One or both wallets not found''), store)"
    by (rule C[THEN conjunct2, THEN conjunct1, THEN mp]) (simp add: store_nobody)
  from ok 1 2 3 4 5 show ?thesis by simp
qed

subsection \<open>Debiting the exact balance\<close>

lemma withdraw_unit_quiet_commit:
  assumes w: "wallet_findUnique mw db i = Some wallet" and d: "deletedAt wallet = None"
    and s: "dto_amount dto \<le> balance wallet"
    and q: "concurrent env db = db"
    and n: "reference_or_generated env (dto_reference dto) \<notin> set (map reference (transactions db))"
    and a: "audit_failure env = None"
  shows "fst (withdraw_unit mw i dto performedBy ip' userAgent' env db) =
           Inr (Some (wallet\<lparr>balance := balance wallet - dto_amount dto,
                             version := version wallet + 1\<rparr>))"
    and "wallet_findUnique mw (snd (withdraw_unit mw i dto performedBy ip' userAgent' env db)) i =
           Some (wallet\<lparr>balance := balance wallet - dto_amount dto, version := version wallet + 1\<rparr>)"
proof -
  have h: "list_ex (\<lambda>w. wallet_id w = i \<and> version w = version wallet) (wallets (concurrent env db))"
    using findUnique_hit[OF w] q by simp
  have n': "reference_or_generated env (dto_reference dto)
              \<notin> set (map reference (transactions (concurrent env db)))"
    using n q by simp
  note commit = withdraw_unit_commit[OF w d s h n' a, of performedBy ip' userAgent', unfolded Let_def q]
  show "fst (withdraw_unit mw i dto performedBy ip' userAgent' env db) =
           Inr (Some (wallet\<lparr>balance := balance wallet - dto_amount dto,
                             version := version wallet + 1\<rparr>))"
    unfolding commit fst_conv by (simp only: findUnique_after_update[OF w])
  show "wallet_findUnique mw (snd (withdraw_unit mw i dto performedBy ip' userAgent' env db)) i =
           Some (wallet\<lparr>balance := balance wallet - dto_amount dto, version := version wallet + 1\<rparr>)"
    unfolding commit snd_conv by (simp only: findUnique_after_update[OF w])
qed

lemma withdraw_quiet_commit:
  assumes "wallet_findUnique mw db i = Some wallet" and "deletedAt wallet = None"
    and "dto_amount dto \<le> balance wallet"
    and "concurrent (envs 0) db = db"
    and "reference_or_generated (envs 0) (dto_reference dto) \<notin> set (map reference (transactions db))"
    and "audit_failure (envs 0) = None"
  shows "fst (withdraw mw i dto performedBy ip' userAgent' envs db) =
           Inr (Some (wallet\<lparr>balance := balance wallet - dto_amount dto,
                             version := version wallet + 1\<rparr>))"
proof -
  let ?u = "withdraw_unit mw i dto performedBy ip' userAgent' (envs 0) db"
  from withdraw_unit_quiet_commit(1)[OF assms, of performedBy ip' userAgent']
  have "?u = (Inr (Some (wallet\<lparr>balance := balance wallet - dto_amount dto,
                                 version := version wallet + 1\<rparr>)), snd ?u)"
    by (metis prod.collapse)
  then have "attempts envs (withdraw_unit mw i dto performedBy ip' userAgent') (db, 0) =
      (Inr (Some (wallet\<lparr>balance := balance wallet - dto_amount dto,
                          version := version wallet + 1\<rparr>)), snd ?u, 1)"
    by (rule attempts_first)
  then show ?thesis
    unfolding withdraw_def by (simp add: executeWithRetry_first_success)
qed

lemma withdraw_unit_insufficient_iff:
  assumes w: "wallet_findUnique mw db i = Some wallet" and d: "deletedAt wallet = None"
    and a: "audit_failure env = None"
  shows "fst (withdraw_unit mw i dto performedBy ip' userAgent' env db) = Inl (InsufficientFunds wallet)
         \<longleftrightarrow> balance wallet < dto_amount dto"
proof (cases "balance wallet < dto_amount dto")
  case True
  with w d show ?thesis by (simp add: withdraw_unit_insufficient)
next
  case False
  then have s: "dto_amount dto \<le> balance wallet" by simp
  have "fst (withdraw_unit mw i dto performedBy ip' userAgent' env db) \<noteq> Inl (InsufficientFunds wallet)"
  proof (cases "list_ex (\<lambda>w. wallet_id w = i \<and> version w = version wallet)
                  (wallets (concurrent env db))")
    case False
    with w d s show ?thesis
      by (simp add: withdraw_unit_conflict ConcurrentModification_def InsufficientFunds_def)
  next
    case h: True
    show ?thesis
    proof (cases "reference_or_generated env (dto_reference dto)
                    \<in> set (map reference (transactions (concurrent env db)))")
      case True
      with w d s h show ?thesis by (simp add: withdraw_unit_duplicate InsufficientFunds_def)
    next
      case False
      from withdraw_unit_commit[OF w d s h False a, of performedBy ip' userAgent']
      show ?thesis by (simp add: Let_def)
    qed
  qed
  with False show ?thesis by simp
qed

lemma transfer_insufficient_iff:
  assumes f: "wallet_findUnique mw db fromWalletId = Some fromWallet"
    and t: "wallet_findUnique mw db toWalletId = Some toWallet"
    and c: "currency fromWallet = currency toWallet"
  shows "transfer mw fromWalletId toWalletId a performedBy description' env db =
           (Inl (BadRequestException ''Insufficient funds''), db)
         \<longleftrightarrow> balance fromWallet < a"
proof (cases "balance fromWallet < a")
  case True
  with f t c show ?thesis by (simp add: transfer_insufficient)
next
  case False
  then have s: "a \<le> balance fromWallet" by simp
  have "transfer mw fromWalletId toWalletId a performedBy description' env db \<noteq>
          (Inl (BadRequestException ''Insufficient funds''), db)"
  proof (cases "generateTransactionReference env @ ''-OUT'' \<in> set (map reference (transactions db))")
    case True
    from transfer_duplicate_out[OF f t c s True] show ?thesis by simp
  next
    case o: False
    show ?thesis
    proof (cases "generateTransactionReference env @ ''-IN'' \<in> set (map reference (transactions db))")
      case True
      from transfer_duplicate_in[OF f t c s o True] show ?thesis by simp
    next
      case False
      from transfer_commit[OF f t c s o False, of performedBy description']
      show ?thesis by (simp add: Let_def)
    qed
  qed
  with False show ?thesis by simp
qed

lemma transfer_source_after:
  assumes f: "wallet_findUnique mw db fromWalletId = Some fromWallet"
    and t: "wallet_findUnique mw db toWalletId = Some toWallet"
    and c: "currency fromWallet = currency toWallet"
    and s: "a \<le> balance fromWallet"
    and o: "generateTransactionReference env @ ''-OUT'' \<notin> set (map reference (transactions db))"
    and n: "generateTransactionReference env @ ''-IN'' \<notin> set (map reference (transactions db))"
    and ne: "fromWalletId \<noteq> toWalletId"
  shows "wallet_findUnique mw
           (snd (transfer mw fromWalletId toWalletId a performedBy description' env db)) fromWalletId =
         Some (fromWallet\<lparr>balance := balance fromWallet - a, version := version fromWallet + 1\<rparr>)"
proof -
  let ?P = "\<lambda>w. wallet_id w = fromWalletId \<and> (if mw then deletedAt w = None else True)"
  let ?f = "\<lambda>w. if wallet_id w = fromWalletId
                 then w\<lparr>balance := balance w + - a, version := version w + 1\<rparr> else w"
  let ?g = "\<lambda>w. if wallet_id w = toWalletId
                 then w\<lparr>balance := balance w + a, version := version w + 1\<rparr> else w"
  from f have "find ?P (wallets db) = Some fromWallet" by (simp add: wallet_findUnique_def)
  then have "find ?P (map ?f (wallets db)) = Some (?f fromWallet)"
    by (rule find_map_update) simp
  then have "find ?P (map ?g (map ?f (wallets db))) = Some (?g (?f fromWallet))"
    by (rule find_map_update) simp
  moreover have "wallet_id fromWallet = fromWalletId" using f by (simp add: findUnique_row)
  ultimately have "find ?P (map ?g (map ?f (wallets db))) =
      Some (fromWallet\<lparr>balance := balance fromWallet - a, version := version fromWallet + 1\<rparr>)"
    using ne by simp
  then show ?thesis
    unfolding transfer_commit[OF f t c s o n, of performedBy description', unfolded Let_def] snd_conv
    by (simp add: wallet_findUnique_def del: map_map)
qed

text \<open>
  C10. Debiting the exact balance succeeds. For an active wallet (audit store working)
  the unit of \<^verbatim>\<open>withdraw\<close> ends in the insufficient-funds error exactly when the balance is
  below the amount; a withdrawal of the whole positive balance, with nobody else writing,
  an unused reference and a working audit store, returns the wallet with balance 0 and the
  version one higher, and that is the row in the store. \<^verbatim>\<open>transfer\<close> between two wallets
  of one currency ends in its insufficient-funds error exactly when the source balance is
  below the amount; a transfer of the whole balance with unused references succeeds, and
  leaves the source (when it is not also the destination) at balance 0.
\<close>

theorem C10_exact_balance_debit:
  "(wallet_findUnique mw db i = Some wallet \<and> deletedAt wallet = None \<longrightarrow>
      (audit_failure env = None \<longrightarrow>
         (fst (withdraw_unit mw i dto performedBy ip' userAgent' env db) = Inl (InsufficientFunds wallet))
         = (balance wallet < dto_amount dto)) \<and>
      (0 < balance wallet \<and> dto_amount dto = balance wallet \<longrightarrow>
         (concurrent env db = db \<and>
          reference_or_generated env (dto_reference dto) \<notin> set (map reference (transactions db)) \<and>
          audit_failure env = None \<longrightarrow>
            fst (withdraw_unit mw i dto performedBy ip' userAgent' env db) =
              Inr (Some (wallet\<lparr>balance := 0, version := version wallet + 1\<rparr>)) \<and>
            wallet_findUnique mw (snd (withdraw_unit mw i dto performedBy ip' userAgent' env db)) i =
              Some (wallet\<lparr>balance := 0, version := version wallet + 1\<rparr>)) \<and>
         (concurrent (envs 0) db = db \<and>
          reference_or_generated (envs 0) (dto_reference dto)
            \<notin> set (map reference (transactions db)) \<and>
          audit_failure (envs 0) = None \<longrightarrow>
            fst (withdraw mw i dto performedBy ip' userAgent' envs db) =
              Inr (Some (wallet\<lparr>balance := 0, version := version wallet + 1\<rparr>))))) \<and>
   (wallet_findUnique mw db fromWalletId = Some fromWallet \<and>
    wallet_findUnique mw db toWalletId = Some toWallet \<and>
    currency fromWallet = currency toWallet \<longrightarrow>
      ((transfer mw fromWalletId toWalletId a performedBy description' env db =
          (Inl (BadRequestException ''Insufficient funds''), db))
       = (balance fromWallet < a)) \<and>
      (0 < balance fromWallet \<and>
       generateTransactionReference env @ ''-OUT'' \<notin> set (map reference (transactions db)) \<and>
       generateTransactionReference env @ ''-IN'' \<notin> set (map reference (transactions db)) \<longrightarrow>
         (\<exists>r db'. transfer mw fromWalletId toWalletId (balance fromWallet) performedBy description'
                     env db = (Inr r, db')) \<and>
         (fromWalletId \<noteq> toWalletId \<longrightarrow>
            wallet_findUnique mw
              (snd (transfer mw fromWalletId toWalletId (balance fromWallet) performedBy description'
                      env db)) fromWalletId =
            Some (fromWallet\<lparr>balance := 0, version := version fromWallet + 1\<rparr>))))"
proof (intro conjI impI; (elim conjE)?)
  assume "wallet_findUnique mw db i = Some wallet" "deletedAt wallet = None" "audit_failure env = None"
  then show "(fst (withdraw_unit mw i dto performedBy ip' userAgent' env db) =
              Inl (InsufficientFunds wallet)) = (balance wallet < dto_amount dto)"
    by (rule withdraw_unit_insufficient_iff)
next
  assume a: "wallet_findUnique mw db i = Some wallet" "deletedAt wallet = None"
    and b: "dto_amount dto = balance wallet"
    and c: "concurrent env db = db"
      "reference_or_generated env (dto_reference dto) \<notin> set (map reference (transactions db))"
      "audit_failure env = None"
  from b have s: "dto_amount dto \<le> balance wallet" by simp
  from withdraw_unit_quiet_commit[OF a s c, of performedBy ip' userAgent'] b
  show "fst (withdraw_unit mw i dto performedBy ip' userAgent' env db) =
          Inr (Some (wallet\<lparr>balance := 0, version := version wallet + 1\<rparr>))"
    and "wallet_findUnique mw (snd (withdraw_unit mw i dto performedBy ip' userAgent' env db)) i =
          Some (wallet\<lparr>balance := 0, version := version wallet + 1\<rparr>)"
    by simp_all
next
  assume a: "wallet_findUnique mw db i = Some wallet" "deletedAt wallet = None"
    and b: "dto_amount dto = balance wallet"
    and c: "concurrent (envs 0) db = db"
      "reference_or_generated (envs 0) (dto_reference dto) \<notin> set (map reference (transactions db))"
      "audit_failure (envs 0) = None"
  from b have s: "dto_amount dto \<le> balance wallet" by simp
  from withdraw_quiet_commit[where envs = envs, OF a s c, of performedBy ip' userAgent'] b
  show "fst (withdraw mw i dto performedBy ip' userAgent' envs db) =
          Inr (Some (wallet\<lparr>balance := 0, version := version wallet + 1\<rparr>))"
    by simp
next
  assume "wallet_findUnique mw db fromWalletId = Some fromWallet"
    "wallet_findUnique mw db toWalletId = Some toWallet"
    "currency fromWallet = currency toWallet"
  then show "(transfer mw fromWalletId toWalletId a performedBy description' env db =
          (Inl (BadRequestException ''Insufficient funds''), db)) = (balance fromWallet < a)"
    by (rule transfer_insufficient_iff)
next
  assume a: "wallet_findUnique mw db fromWalletId = Some fromWallet"
    "wallet_findUnique mw db toWalletId = Some toWallet"
    "currency fromWallet = currency toWallet"
    and n: "generateTransactionReference env @ ''-OUT'' \<notin> set (map reference (transactions db))"
      "generateTransactionReference env @ ''-IN'' \<notin> set (map reference (transactions db))"
  from transfer_commit[OF a order_refl n, of performedBy description']
  show "\<exists>r db'. transfer mw fromWalletId toWalletId (balance fromWallet) performedBy description'
                  env db = (Inr r, db')"
    by (simp add: Let_def)
  assume "fromWalletId \<noteq> toWalletId"
  from transfer_source_after[OF a order_refl n this, of performedBy description']
  show "wallet_findUnique mw
          (snd (transfer mw fromWalletId toWalletId (balance fromWallet) performedBy description'
                  env db)) fromWalletId =
        Some (fromWallet\<lparr>balance := 0, version := version fromWallet + 1\<rparr>)"
    by simp
qed

theorem C10_exact_balance_debit_witness:
  "fst (withdraw False ''wallet-123'' (amount_dto 10000000 None) ''user-123'' None None calm store) =
     Inr (Some (wallet123\<lparr>balance := 0, version := 2\<rparr>)) \<and>
   wallet_findUnique False
     (snd (transfer False ''wallet-123'' ''wallet-456'' 10000000 ''user-123'' None quiet store))
     ''wallet-123'' = Some (wallet123\<lparr>balance := 0, version := 2\<rparr>)"
proof -
  note w1 = store_wallet123[of False] and w2 = store_wallet456[of False]
  have d: "deletedAt wallet123 = None" and b: "balance wallet123 = 10000000"
    and p: "0 < balance wallet123" and v: "version wallet123 + 1 = 2"
    and c: "currency wallet123 = currency wallet456"
    by (simp_all add: wallet123_def wallet456_def)
  have e: "dto_amount (amount_dto 10000000 None) = balance wallet123"
    by (simp add: amount_dto_def b)
  have q: "concurrent (calm 0) store = store" "audit_failure (calm 0) = None"
    "reference_or_generated (calm 0) (dto_reference (amount_dto 10000000 None))
       \<notin> set (map reference (transactions store))"
    by (simp_all add: calm_simps quiet_simps store_references reference_or_generated_def
          amount_dto_def)
  note C = C10_exact_balance_debit[where mw = False and db = store]
  have "fst (withdraw False ''wallet-123'' (amount_dto 10000000 None) ''user-123'' None None calm store) =
     Inr (Some (wallet123\<lparr>balance := 0, version := version wallet123 + 1\<rparr>))"
    by (rule C[where wallet = wallet123, THEN conjunct1, THEN mp, THEN conjunct2, THEN mp,
                THEN conjunct2, THEN mp])
       (intro conjI w1 d p e q)+
  then have 1: "fst (withdraw False ''wallet-123'' (amount_dto 10000000 None) ''user-123'' None None
                       calm store) = Inr (Some (wallet123\<lparr>balance := 0, version := 2\<rparr>))"
    by (simp only: v)
  have "wallet_findUnique False
     (snd (transfer False ''wallet-123'' ''wallet-456'' (balance wallet123) ''user-123'' None quiet store))
     ''wallet-123'' = Some (wallet123\<lparr>balance := 0, version := version wallet123 + 1\<rparr>)"
    by (rule C[where fromWallet = wallet123 and toWallet = wallet456 and env = quiet,
                THEN conjunct2, THEN mp, THEN conjunct2, THEN mp, THEN conjunct2, THEN mp])
       ((intro conjI w1 w2 c p quiet_references_fresh)+, simp)
  then have 2: "wallet_findUnique False
     (snd (transfer False ''wallet-123'' ''wallet-456'' 10000000 ''user-123'' None quiet store))
     ''wallet-123'' = Some (wallet123\<lparr>balance := 0, version := 2\<rparr>)"
    by (simp only: v b)
  from 1 2 show ?thesis by (intro conjI)
qed

subsection \<open>Amounts, currencies and deletion\<close>

text \<open>
  What holds of the ledger entries (C6): the entry a committed \<^verbatim>\<open>fund\<close> or
  \<^verbatim>\<open>withdraw\<close> unit appends carries the amount of the request, which is positive when
  the request passed its validators, and the balance it read before and after that amount.
\<close>

lemma fund_unit_entry:
  assumes "fund_unit mw i dto performedBy ip' userAgent' env db = (Inr r, db')"
  shows "\<exists>wallet e. wallet_findUnique mw db i = Some wallet \<and>
           transactions db' = transactions (concurrent env db) @ [e] \<and>
           walletId e = i \<and> txn_type e = CREDIT \<and> amount e = dto_amount dto \<and>
           balanceBefore e = balance wallet \<and>
           balanceAfter e = balanceBefore e + amount e \<and>
           (validate_FundWalletDto dto \<longrightarrow> 0 < amount e)"
proof -
  from fund_unit_InrD[OF assms] obtain wallet where
    w: "wallet_findUnique mw db i = Some wallet" "deletedAt wallet = None"
       "list_ex (\<lambda>w. wallet_id w = i \<and> version w = version wallet) (wallets (concurrent env db))"
       "reference_or_generated env (dto_reference dto)
          \<notin> set (map reference (transactions (concurrent env db)))"
       "audit_failure env = None"
    by blast
  from fund_unit_commit[OF w, of performedBy ip' userAgent'] assms w(1)
  show ?thesis
    by (auto simp add: Let_def updateMany_frame validate_FundWalletDto_def)
qed

lemma withdraw_unit_entry:
  assumes "withdraw_unit mw i dto performedBy ip' userAgent' env db = (Inr r, db')"
  shows "\<exists>wallet e. wallet_findUnique mw db i = Some wallet \<and>
           transactions db' = transactions (concurrent env db) @ [e] \<and>
           walletId e = i \<and> txn_type e = DEBIT \<and> amount e = dto_amount dto \<and>
           balanceBefore e = balance wallet \<and>
           balanceAfter e = balanceBefore e - amount e \<and>
           (validate_FundWalletDto dto \<longrightarrow> 0 < amount e)"
proof -
  from withdraw_unit_InrD[OF assms] obtain wallet where
    w: "wallet_findUnique mw db i = Some wallet" "deletedAt wallet = None"
       "dto_amount dto \<le> balance wallet"
       "list_ex (\<lambda>w. wallet_id w = i \<and> version w = version wallet) (wallets (concurrent env db))"
       "reference_or_generated env (dto_reference dto)
          \<notin> set (map reference (transactions (concurrent env db)))"
       "audit_failure env = None"
    by blast
  from withdraw_unit_commit[OF w, of performedBy ip' userAgent'] assms w(1)
  show ?thesis
    by (auto simp add: Let_def updateMany_frame validate_FundWalletDto_def)
qed

text \<open>
  C6 fails on \<^verbatim>\<open>transfer\<close>, which takes its amount as a plain number and checks only
  that the source balance is not below it. With the amount \<open>-250.0000\<close> from the first
  wallet (balance 1000) to the second (balance 0) the check passes, both ledger entries
  are written with the amount \<open>-250.0000\<close>, and the second wallet is left at
  \<open>-250.0000\<close>.
\<close>

theorem C6_transfer_negative_amount:
  "map amount (transactions (snd (transfer False ''wallet-123'' ''wallet-456'' (- 2500000)
                                    ''user-123'' None quiet store))) =
     [10000000, - 2500000, - 2500000] \<and>
   map balance (wallets (snd (transfer False ''wallet-123'' ''wallet-456'' (- 2500000)
                                ''user-123'' None quiet store))) =
     [12500000, - 2500000, 0]"
proof -
  have c: "currency wallet123 = currency wallet456" "- 2500000 \<le> balance wallet123"
    by (simp_all add: wallet123_def wallet456_def)
  note t = transfer_commit[OF store_wallet123 store_wallet456 c quiet_references_fresh,
      where mw = False and performedBy = "''user-123''" and description' = None, unfolded Let_def]
  show ?thesis
    unfolding t snd_conv
    by (simp add: store_def wallet123_def wallet456_def wallet789_def fund001_def)
qed

text \<open>
  What holds of \<^verbatim>\<open>create\<close> (C8): a wallet it returns has balance 0 and version 0,
  belongs to the caller and is a row of the store.
\<close>

lemma create_new_wallet:
  "create userId' cdto ip' userAgent' env db = (Inr w, db') \<Longrightarrow>
   balance w = 0 \<and> version w = 0 \<and> userId w = userId' \<and> deletedAt w = None \<and>
   name w = dto_name cdto \<and> currency w = toUpperCase (dto_currency cdto) \<and>
   wallets db' = wallets db @ [w]"
  by (auto simp add: create_def wallet_create_def AuditService_log_def Let_def
        split: sum.splits if_splits option.splits)

text \<open>
  C8 fails on the currency check. The only check is the shape \<^verbatim>\<open>/^[A-Z]{3}$/\<close>:
  \<^verbatim>\<open>SUPPORTED_CURRENCIES\<close>, the list the file exports and the API guide prints under
  ``Supported Currencies'', is consulted nowhere. The body
  \<^verbatim>\<open>{name: "Main", currency: "ZZZ"}\<close> passes validation and the wallet is created.
\<close>

theorem C8_unrecognised_currency_accepted:
  "validate_CreateWalletDto \<lparr>dto_name = ''Main'', dto_currency = ''ZZZ''\<rparr> \<and>
   ''ZZZ'' \<notin> set SUPPORTED_CURRENCIES \<and>
   fst (WalletsController_create ''user-123'' \<lparr>dto_name = ''Main'', dto_currency = ''ZZZ''\<rparr>
          None None quiet store) =
     Inr \<lparr>wallet_id = ''wallet-900'', name = ''Main'', currency = ''ZZZ'', balance = 0,
          version = 0, userId = ''user-123'', deletedAt = None\<rparr>"
proof -
  have v: "validate_CreateWalletDto \<lparr>dto_name = ''Main'', dto_currency = ''ZZZ''\<rparr>"
    by (simp add: validate_CreateWalletDto_def upper_letters_def)
  have s: "''ZZZ'' \<notin> set SUPPORTED_CURRENCIES"
    by (simp add: SUPPORTED_CURRENCIES_def)
  have u: "toUpperCase ''ZZZ'' = ''ZZZ''"
    by (simp add: toUpperCase_def lower_letters_def upper_letters_def)
  have "fst (create ''user-123'' \<lparr>dto_name = ''Main'', dto_currency = ''ZZZ''\<rparr> None None quiet store) =
     Inr \<lparr>wallet_id = ''wallet-900'', name = ''Main'', currency = ''ZZZ'', balance = 0,
          version = 0, userId = ''user-123'', deletedAt = None\<rparr>"
    by (simp add: create_def wallet_create_def AuditService_log_def u quiet_def
          store_def wallet123_def wallet456_def wallet789_def Let_def)
  with v s show ?thesis by (simp add: WalletsController_create_def)
qed

text \<open>
  What holds of \<^verbatim>\<open>delete\<close> (C9): a caller who does not own the wallet gets
  \<^verbatim>\<open>NotFoundException\<close> and nothing changes; and under the \<^verbatim>\<open>PrismaService\<close> that
  installs the soft-delete middleware, a delete only sets \<^verbatim>\<open>deletedAt\<close>.
\<close>

lemma delete_not_owner:
  "wallet_findUnique mw db i = Some wallet \<Longrightarrow> userId wallet \<noteq> userId' \<Longrightarrow>
   delete mw i userId' ip' userAgent' env db = (Inl (NotFoundException ''Wallet not found''), db)"
  by (simp add: delete_def findByIdOrFail_def)

lemma delete_with_middleware:
  "delete True i userId' ip' userAgent' env db = (Inr u, db') \<Longrightarrow>
   wallets db' = map (\<lambda>w. if wallet_id w = i then w\<lparr>deletedAt := Some (now env)\<rparr> else w)
                   (wallets db) \<and>
   transactions db' = transactions db"
  by (auto simp add: delete_def findByIdOrFail_def wallet_delete_def AuditService_log_def
        split: sum.splits if_splits option.splits)

text \<open>
  C9 fails under the \<^verbatim>\<open>PrismaService\<close> of prisma/prisma.service.ts, which installs no
  middleware: \<^verbatim>\<open>prisma.wallet.delete\<close> is then a physical delete, and the foreign key of
  \<^verbatim>\<open>transactions\<close> cascades. Deleting the first wallet removes its row and its ledger
  entry \<^verbatim>\<open>FUND-001\<close>.
\<close>

theorem C9_delete_removes_row_and_ledger:
  "delete False ''wallet-123'' ''user-123'' None None quiet store =
     (Inr (),
      \<lparr>wallets = [wallet456, wallet789], transactions = [],
       auditLogs = [\<lparr>actorUserId = Some ''user-123'', entity = ''Wallet'',
                     entityId = ''wallet-123'', action = DELETE,
                     changes = Some [(''name'', ''Test Wallet''), (''currency'', ''NGN'')],
                     ip = None, userAgent = None\<rparr>]\<rparr>)"
  by (simp add: delete_def findByIdOrFail_def store_wallet123 wallet_delete_def
        AuditService_log_def quiet_simps)
     (simp add: store_def wallet123_def wallet456_def wallet789_def fund001_def)

end
